theory Spec2Isabelle
  imports Complex_Main
begin

section \<open>The knowledge store: the selector library\<close>

text \<open>
  \<^verbatim>\<open>SiteMemoryStore\<close> keeps its state in SQLite tables. A table is modelled as the list of
  its rows in rowid order, a row as a record of its columns. Every \<^verbatim>\<open>Date.now()\<close> of the
  source is an explicit argument \<open>now\<close> (milliseconds, an integer).

  Table \<^verbatim>\<open>selector_library\<close>: columns domain, action_name, selector, success_count,
  fail_count, last_used, with \<^verbatim>\<open>UNIQUE(domain, action_name, selector)\<close>.
\<close>

record selector_row =
  sl_domain :: string
  sl_action_name :: string
  sl_selector :: string
  sl_success_count :: nat
  sl_fail_count :: nat
  sl_last_used :: int

text \<open>The key of the \<^verbatim>\<open>UNIQUE\<close> constraint, and the constraint itself.\<close>

definition sl_key :: "selector_row \<Rightarrow> string \<times> string \<times> string" where
  "sl_key r = (sl_domain r, sl_action_name r, sl_selector r)"

definition unique_selector_keys :: "selector_row list \<Rightarrow> bool" where
  "unique_selector_keys rows \<longleftrightarrow> distinct (map sl_key rows)"

text \<open>
  \<^verbatim>\<open>INSERT ... ON CONFLICT(domain, action_name, selector) DO UPDATE SET
  success_count = success_count + ?, fail_count = fail_count + ?, last_used = ?\<close>:
  the row with the key is updated in place; when there is none a new row is appended.
\<close>

fun upsert_selector ::
  "string \<Rightarrow> string \<Rightarrow> string \<Rightarrow> nat \<Rightarrow> nat \<Rightarrow> int \<Rightarrow> selector_row list \<Rightarrow> selector_row list" where
  "upsert_selector d a s ds df now [] =
     [\<lparr>sl_domain = d, sl_action_name = a, sl_selector = s,
       sl_success_count = ds, sl_fail_count = df, sl_last_used = now\<rparr>]"
| "upsert_selector d a s ds df now (r # rs) =
     (if sl_key r = (d, a, s)
      then r\<lparr>sl_success_count := sl_success_count r + ds,
             sl_fail_count := sl_fail_count r + df,
             sl_last_used := now\<rparr> # rs
      else r # upsert_selector d a s ds df now rs)"

text \<open>
  \<^verbatim>\<open>recordSelectorOutcome(domain, actionName, selector, success)\<close>: nothing for an empty
  selector (\<^verbatim>\<open>if (!selector) return\<close>), otherwise the upsert with \<^verbatim>\<open>success ? 1 : 0\<close> and
  \<^verbatim>\<open>success ? 0 : 1\<close>.
\<close>

definition recordSelectorOutcome ::
  "string \<Rightarrow> string \<Rightarrow> string \<Rightarrow> bool \<Rightarrow> int \<Rightarrow> selector_row list \<Rightarrow> selector_row list" where
  "recordSelectorOutcome domain actionName selector success now lib =
     (if selector = [] then lib
      else upsert_selector domain actionName selector
             (if success then 1 else 0) (if success then 0 else 1) now lib)"

text \<open>
  The query of \<^verbatim>\<open>getBestSelector\<close> computes
  \<^verbatim>\<open>CAST(success_count AS REAL) / (success_count + fail_count) AS rate\<close> in SQLite's \<^verbatim>\<open>REAL\<close>,
  the IEEE 754 double: both operands are converted to doubles and their quotient is rounded
  to the nearest double, ties to the even significand. The doubles that occur are
  non-negative rationals, and the rounding is written out on them.

  \<open>ilog2 n\<close> is the position of the leading bit of \<open>n\<close>, and \<open>round_half_even\<close> the
  rounding of a rational to the nearest integer, ties to even.
\<close>

fun ilog2 :: "nat \<Rightarrow> nat" where
  "ilog2 n = (if n < 2 then 0 else Suc (ilog2 (n div 2)))"

declare ilog2.simps [simp del]

definition round_half_even :: "rat \<Rightarrow> int" where
  "round_half_even q =
     (let n = \<lfloor>q\<rfloor>; d = q - of_int n
      in if d < 1 / 2 then n else if 1 / 2 < d then n + 1 else if even n then n else n + 1)"

text \<open>
  The conversion of an integer to \<^verbatim>\<open>REAL\<close>: exact up to 53 bits, beyond that rounded to 53
  significant bits. The result is again an integer.
\<close>

definition to_REAL :: "nat \<Rightarrow> nat" where
  "to_REAL n =
     (let e = ilog2 n
      in if e \<le> 52 then n
         else nat (round_half_even (of_nat n / 2 ^ (e - 52))) * 2 ^ (e - 52))"

text \<open>
  The quotient of two doubles with integer values \<open>n\<close> and \<open>d\<close>: with \<open>e\<close> the exponent of
  \<open>n / d\<close>, that is \<open>2 powi e \<le> n / d < 2 powi (e + 1)\<close>, the quotient is rounded to a multiple
  of \<open>2 powi (e - 52)\<close>. A zero divisor does not occur: the query keeps rows of at least
  two attempts. (Counters are 64-bit integers in SQLite and unbounded here; quotients of
  64-bit counters are within the range of normal doubles.)
\<close>

definition REAL_divide :: "nat \<Rightarrow> nat \<Rightarrow> rat" where
  "REAL_divide n d =
     (if n = 0 then 0
      else (let e0 = int (ilog2 n) - int (ilog2 d);
                e = (if of_nat d * 2 powi e0 \<le> (of_nat n :: rat) then e0 else e0 - 1);
                ulp = 2 powi (e - 52)
            in of_int (round_half_even (of_nat n / (of_nat d * ulp))) * ulp))"

text \<open>
  The columns computed by the query: \<^verbatim>\<open>success_count + fail_count AS attempts\<close> and
  \<^verbatim>\<open>CAST(success_count AS REAL) / (success_count + fail_count) AS rate\<close>.
\<close>

definition attempts :: "selector_row \<Rightarrow> nat" where
  "attempts r = sl_success_count r + sl_fail_count r"

definition rate :: "selector_row \<Rightarrow> rat" where
  "rate r = REAL_divide (to_REAL (sl_success_count r)) (to_REAL (sl_success_count r + sl_fail_count r))"

text \<open>
  \<^verbatim>\<open>ORDER BY rate DESC, attempts DESC\<close>: \<open>sorts_before r r'\<close> when \<open>r\<close> comes strictly
  before \<open>r'\<close>. \<^verbatim>\<open>LIMIT 1\<close> keeps the first row of that order; among rows equal in both
  columns SQLite may return any, and the model takes the earliest in the table.
\<close>

definition sorts_before :: "selector_row \<Rightarrow> selector_row \<Rightarrow> bool" where
  "sorts_before r r' \<longleftrightarrow> rate r' < rate r \<or> (rate r' = rate r \<and> attempts r' < attempts r)"

fun limit_1 :: "selector_row list \<Rightarrow> selector_row option" where
  "limit_1 [] = None"
| "limit_1 (r # rs) =
     (case limit_1 rs of
        None \<Rightarrow> Some r
      | Some b \<Rightarrow> if sorts_before b r then Some b else Some r)"

text \<open>\<^verbatim>\<open>WHERE domain = ? AND action_name = ? AND success_count + fail_count >= 2\<close>.\<close>

definition eligible :: "string \<Rightarrow> string \<Rightarrow> selector_row \<Rightarrow> bool" where
  "eligible domain actionName r \<longleftrightarrow>
     sl_domain r = domain \<and> sl_action_name r = actionName \<and> 2 \<le> attempts r"

text \<open>
  \<^verbatim>\<open>getBestSelector(domain, actionName)\<close>: the first row of the query, and
  \<^verbatim>\<open>if (!row || row.rate < 0.5) return null; return row.selector\<close>.
\<close>

definition getBestSelector :: "string \<Rightarrow> string \<Rightarrow> selector_row list \<Rightarrow> string option" where
  "getBestSelector domain actionName lib =
     (case limit_1 (filter (eligible domain actionName) lib) of
        None \<Rightarrow> None
      | Some row \<Rightarrow> if rate row < 1 / 2 then None else Some (sl_selector row))"

section \<open>URLs: the platform's constructor, normalisation, domains\<close>

text \<open>
  \<^verbatim>\<open>new URL(url)\<close> is the platform's WHATWG parser, not code of the repository. The store
  and the executor read two properties of its result, \<^verbatim>\<open>hostname\<close> and \<^verbatim>\<open>pathname\<close>, and
  catch its exception. The constructor is a parameter \<open>URL\<close> of the functions that call
  it: \<open>None\<close> when it throws, otherwise the two properties.
\<close>

record url =
  hostname :: string
  pathname :: string

type_synonym url_constructor = "string \<Rightarrow> url option"

text \<open>\<^verbatim>\<open>u.pathname.replace(/\/$/, '') || '/'\<close>: one trailing slash removed, an empty result replaced.\<close>

definition strip_trailing_slash :: "string \<Rightarrow> string" where
  "strip_trailing_slash p = (if p \<noteq> [] \<and> last p = CHR ''/'' then butlast p else p)"

text \<open>
  \<^verbatim>\<open>SiteMemoryStore.normalizeUrl\<close>:
  \<^verbatim>\<open>try { const u = new URL(url); const path = ...; return `${u.hostname}${path}` } catch { return url }\<close>.
\<close>

definition normalizeUrl :: "url_constructor \<Rightarrow> string \<Rightarrow> string" where
  "normalizeUrl URL u =
     (case URL u of
        None \<Rightarrow> u
      | Some parsed \<Rightarrow>
          (let stripped = strip_trailing_slash (pathname parsed);
               path = (if stripped = [] then ''/'' else stripped)
           in hostname parsed @ path))"

text \<open>\<^verbatim>\<open>SiteMemoryStore.getDomain\<close>: \<^verbatim>\<open>try { return new URL(url).hostname } catch { return url }\<close>.\<close>

definition getDomain :: "url_constructor \<Rightarrow> string \<Rightarrow> string" where
  "getDomain URL u = (case URL u of None \<Rightarrow> u | Some parsed \<Rightarrow> hostname parsed)"

text \<open>\<^verbatim>\<open>TaskExecutor.getDomain\<close>, the executor's own copy of the same method.\<close>

definition TaskExecutor_getDomain :: "url_constructor \<Rightarrow> string \<Rightarrow> string" where
  "TaskExecutor_getDomain URL u = (case URL u of None \<Rightarrow> u | Some parsed \<Rightarrow> hostname parsed)"

subsection \<open>A fragment of the platform's parser\<close>

text \<open>
  Closed statements need a constructor that computes. \<open>URL_parse\<close> follows the WHATWG
  basic URL parser, called without a base URL, on a fragment where its result can be read
  off the input:
  \<^item> the input must start with a scheme, an ASCII letter followed by letters, digits,
    \<^verbatim>\<open>+\<close>, \<^verbatim>\<open>-\<close> or \<^verbatim>\<open>.\<close> up to a colon; without one the parser fails (there is no base),
    and so does \<open>URL_parse\<close>;
  \<^item> \<^verbatim>\<open>http\<close> and \<^verbatim>\<open>https\<close> followed by \<^verbatim>\<open>//\<close>, a host of dot-separated labels of lower-case
    letters, and a path of segments that need neither percent-encoding nor dot-segment
    removal, up to the query or fragment: \<^verbatim>\<open>hostname\<close> is the host and \<^verbatim>\<open>pathname\<close> the
    path, \<^verbatim>\<open>/\<close> when the path is empty;
  \<^item> any other scheme except \<^verbatim>\<open>file\<close>, \<^verbatim>\<open>ftp\<close>, \<^verbatim>\<open>ws\<close>, \<^verbatim>\<open>wss\<close>, followed by something that
    does not start with a slash (\<^verbatim>\<open>blob:\<close>, \<^verbatim>\<open>data:\<close>, \<^verbatim>\<open>mailto:\<close>): the URL has an opaque path,
    \<^verbatim>\<open>hostname\<close> is empty and \<^verbatim>\<open>pathname\<close> is the text up to the query or fragment, here
    required to be printable ASCII without spaces.
  Outside this fragment (ports, credentials, IP addresses, upper-case or international
  hosts, percent-encoding, surrounding white space) \<open>URL_parse\<close> answers \<open>None\<close> although
  the platform may accept the input; it is used at named inputs only, and the general
  theorems are stated for an arbitrary constructor.
\<close>

definition ascii_lower_letters :: string where
  "ascii_lower_letters = ''abcdefghijklmnopqrstuvwxyz''"

definition ascii_upper_letters :: string where
  "ascii_upper_letters = ''ABCDEFGHIJKLMNOPQRSTUVWXYZ''"

definition ascii_digits :: string where
  "ascii_digits = ''0123456789''"

definition scheme_char :: "char \<Rightarrow> bool" where
  "scheme_char c \<longleftrightarrow> c \<in> set (ascii_lower_letters @ ascii_upper_letters @ ascii_digits @ ''+-.'')"

definition ascii_lower :: "char \<Rightarrow> char" where
  "ascii_lower c = (case map_of (zip ascii_upper_letters ascii_lower_letters) c of Some l \<Rightarrow> l | None \<Rightarrow> c)"

text \<open>Scheme start state and scheme state: the lower-cased scheme and what follows the colon.\<close>

definition split_scheme :: "string \<Rightarrow> (string \<times> string) option" where
  "split_scheme s =
     (case s of
        [] \<Rightarrow> None
      | c # cs \<Rightarrow>
          if c \<notin> set (ascii_lower_letters @ ascii_upper_letters) then None
          else (case dropWhile scheme_char s of
                  [] \<Rightarrow> None
                | x # rest \<Rightarrow>
                    if x = CHR '':'' then Some (map ascii_lower (takeWhile scheme_char s), rest)
                    else None))"

fun split_slash :: "string \<Rightarrow> string list" where
  "split_slash [] = [[]]"
| "split_slash (c # cs) =
     (if c = CHR ''/'' then [] # split_slash cs
      else (case split_slash cs of [] \<Rightarrow> [[c]] | seg # segs \<Rightarrow> (c # seg) # segs))"

fun split_dot :: "string \<Rightarrow> string list" where
  "split_dot [] = [[]]"
| "split_dot (c # cs) =
     (if c = CHR ''.'' then [] # split_dot cs
      else (case split_dot cs of [] \<Rightarrow> [[c]] | seg # segs \<Rightarrow> (c # seg) # segs))"

definition plain_host :: "string \<Rightarrow> bool" where
  "plain_host h \<longleftrightarrow>
     (\<forall>label \<in> set (split_dot h). label \<noteq> [] \<and> (\<forall>c \<in> set label. c \<in> set ascii_lower_letters))"

definition plain_path_char :: "char \<Rightarrow> bool" where
  "plain_path_char c \<longleftrightarrow>
     c \<in> set (ascii_lower_letters @ ascii_upper_letters @ ascii_digits @ ''-_~!$&()*+,;=:@/.'')"

definition plain_path :: "string \<Rightarrow> bool" where
  "plain_path p \<longleftrightarrow>
     (\<forall>c \<in> set p. plain_path_char c) \<and> (\<forall>seg \<in> set (split_slash p). seg \<noteq> ''.'' \<and> seg \<noteq> ''..'')"

definition printable_no_space :: "char \<Rightarrow> bool" where
  "printable_no_space c \<longleftrightarrow> 33 \<le> (of_char c :: nat) \<and> (of_char c :: nat) \<le> 126"

definition query_or_fragment :: "char \<Rightarrow> bool" where
  "query_or_fragment c \<longleftrightarrow> c = CHR ''?'' \<or> c = CHR ''#''"

definition URL_parse :: url_constructor where
  "URL_parse s =
     (case split_scheme s of
        None \<Rightarrow> None
      | Some (scheme, rest) \<Rightarrow>
          if scheme \<in> {''http'', ''https''} then
            (if take 2 rest \<noteq> ''//'' then None
             else (let after = drop 2 rest;
                       host = takeWhile (\<lambda>c. c \<noteq> CHR ''/'' \<and> \<not> query_or_fragment c) after;
                       tail = dropWhile (\<lambda>c. c \<noteq> CHR ''/'' \<and> \<not> query_or_fragment c) after;
                       path = takeWhile (\<lambda>c. \<not> query_or_fragment c) tail
                   in if plain_host host \<and> plain_path path
                      then Some \<lparr>hostname = host, pathname = (if path = [] then ''/'' else path)\<rparr>
                      else None))
          else if scheme \<in> {''file'', ''ftp'', ''ws'', ''wss''} \<or> take 1 rest = ''/'' then None
          else (let path = takeWhile (\<lambda>c. \<not> query_or_fragment c) rest
                in if \<forall>c \<in> set path. printable_no_space c
                   then Some \<lparr>hostname = [], pathname = path\<rparr>
                   else None))"

section \<open>The knowledge store: the page model cache\<close>

text \<open>
  Table \<^verbatim>\<open>page_model_cache\<close>: url_pattern (primary key), domain, model_json, hit_count
  (default 0), last_updated. The column \<^verbatim>\<open>model_json\<close> holds \<^verbatim>\<open>JSON.stringify(model)\<close> and is
  read back with \<^verbatim>\<open>JSON.parse\<close>; page models are JSON data, on which the two are inverse,
  and the column is modelled as the model itself (of any type \<open>'m\<close>).
\<close>

record 'm cache_row =
  pc_url_pattern :: string
  pc_domain :: string
  pc_model_json :: 'm
  pc_hit_count :: nat
  pc_last_updated :: int

text \<open>\<^verbatim>\<open>const CACHE_TTL_MS = 1000 * 60 * 30\<close>.\<close>

definition CACHE_TTL_MS :: int where
  "CACHE_TTL_MS = 1000 * 60 * 30"

text \<open>
  \<^verbatim>\<open>getCachedModel(url)\<close>: the row of the normalised URL; \<^verbatim>\<open>null\<close> when there is none or when
  \<^verbatim>\<open>Date.now() - row.last_updated > CACHE_TTL_MS\<close>; otherwise \<^verbatim>\<open>hit_count\<close> is incremented
  and the model returned. The result is paired with the table after the call.
\<close>

definition getCachedModel ::
  "url_constructor \<Rightarrow> int \<Rightarrow> string \<Rightarrow> 'm cache_row list \<Rightarrow> 'm option \<times> 'm cache_row list" where
  "getCachedModel URL now u cache =
     (let pattern = normalizeUrl URL u in
      case find (\<lambda>r. pc_url_pattern r = pattern) cache of
        None \<Rightarrow> (None, cache)
      | Some row \<Rightarrow>
          if now - pc_last_updated row > CACHE_TTL_MS then (None, cache)
          else (Some (pc_model_json row),
                map (\<lambda>r. if pc_url_pattern r = pattern
                          then r\<lparr>pc_hit_count := pc_hit_count r + 1\<rparr> else r) cache))"

text \<open>
  \<^verbatim>\<open>cacheModel(url, model)\<close>:
  \<^verbatim>\<open>INSERT ... VALUES (pattern, domain, json, now) ON CONFLICT(url_pattern) DO UPDATE SET
  model_json = excluded.model_json, last_updated = excluded.last_updated\<close>.
\<close>

fun upsert_cache :: "string \<Rightarrow> string \<Rightarrow> 'm \<Rightarrow> int \<Rightarrow> 'm cache_row list \<Rightarrow> 'm cache_row list" where
  "upsert_cache pattern domain m now [] =
     [\<lparr>pc_url_pattern = pattern, pc_domain = domain, pc_model_json = m,
       pc_hit_count = 0, pc_last_updated = now\<rparr>]"
| "upsert_cache pattern domain m now (r # rs) =
     (if pc_url_pattern r = pattern
      then r\<lparr>pc_model_json := m, pc_last_updated := now\<rparr> # rs
      else r # upsert_cache pattern domain m now rs)"

definition cacheModel ::
  "url_constructor \<Rightarrow> int \<Rightarrow> string \<Rightarrow> 'm \<Rightarrow> 'm cache_row list \<Rightarrow> 'm cache_row list" where
  "cacheModel URL now u m cache = upsert_cache (normalizeUrl URL u) (getDomain URL u) m now cache"

text \<open>\<^verbatim>\<open>invalidateCache(domain)\<close>: \<^verbatim>\<open>DELETE FROM page_model_cache WHERE domain = ?\<close>.\<close>

definition invalidateCache :: "string \<Rightarrow> 'm cache_row list \<Rightarrow> 'm cache_row list" where
  "invalidateCache domain cache = filter (\<lambda>r. pc_domain r \<noteq> domain) cache"

text \<open>A run of lookups, each at its own time, as they happen between a write and a later read.\<close>

definition lookups :: "url_constructor \<Rightarrow> (int \<times> string) list \<Rightarrow> 'm cache_row list \<Rightarrow> 'm cache_row list" where
  "lookups URL reads cache = fold (\<lambda>(now, u) c. snd (getCachedModel URL now u c)) reads cache"

section \<open>The page model and the results handed to callers\<close>

text \<open>
  The interfaces of \<^verbatim>\<open>types.ts\<close>. An optional property is an \<open>option\<close>; a
  \<^verbatim>\<open>Record<string, T>\<close> is the list of its entries in the order \<^verbatim>\<open>Object.entries\<close> yields
  them; a value of type \<^verbatim>\<open>unknown\<close> is a JSON value.
\<close>

datatype json =
  JNull | JBool bool | JNum rat | JStr string | JArr "json list" | JObj "(string \<times> json) list"

datatype PageType =
  Login | Signup | Dashboard | Search | Product | Checkout | Cart | Form | Article | Listing
  | Profile | Settings | Error | Captcha | Unknown

text \<open>The string a page type is at run time, as template literals and the profile see it.\<close>

fun PageType_text :: "PageType \<Rightarrow> string" where
  "PageType_text Login = ''login''"
| "PageType_text Signup = ''signup''"
| "PageType_text Dashboard = ''dashboard''"
| "PageType_text Search = ''search''"
| "PageType_text Product = ''product''"
| "PageType_text Checkout = ''checkout''"
| "PageType_text Cart = ''cart''"
| "PageType_text Form = ''form''"
| "PageType_text Article = ''article''"
| "PageType_text Listing = ''listing''"
| "PageType_text Profile = ''profile''"
| "PageType_text Settings = ''settings''"
| "PageType_text Error = ''error''"
| "PageType_text Captcha = ''captcha''"
| "PageType_text Unknown = ''unknown''"

datatype ParameterType = PString | PNumber | PBoolean | PObject | PArray

record ParameterDefinition =
  pd_name :: string
  pd_type :: ParameterType
  pd_description :: string
  pd_required :: bool
  pd_example :: "json option"

datatype InternalType = Click | Fill | FormHint | Select | Navigate | Scroll | Custom

record ActionInternal =
  ai_type :: InternalType
  ai_selector :: "string option"
  ai_field_map :: "(string \<times> string) list option"
  ai_submit_selector :: "string option"

record ActionDefinition =
  ad_name :: string
  ad_description :: string
  ad_parameters :: "ParameterDefinition list"
  ad_returns :: string
  ad_internal :: "ActionInternal option"

datatype LinkType = Primary | Secondary | Breadcrumb

record NavigationLink =
  nl_label :: string
  nl_url :: string
  nl_type :: LinkType

record FormField =
  ff_name :: string
  ff_label :: string
  ff_type :: string
  ff_required :: bool
  ff_placeholder :: "string option"
  ff_selector :: string

record FormDefinition =
  fd_name :: string
  fd_purpose :: string
  fd_fields :: "FormField list"
  fd_submit_action :: string

record SemanticPageModel =
  pm_url :: string
  pm_page_type :: PageType
  pm_title :: string
  pm_task_status :: string
  pm_key_data :: "(string \<times> json) list"
  pm_available_actions :: "ActionDefinition list"
  pm_warnings :: "string list"
  pm_navigation :: "NavigationLink list"
  pm_forms :: "FormDefinition list"
  pm_timestamp :: int

record StateChange =
  sc_navigated_to :: "string option"
  sc_page_type_changed :: "(PageType \<times> PageType) option"
  sc_elements_changed :: "string list option"
  sc_form_submitted :: "bool option"
  sc_auth_state_changed :: "bool option"
  sc_summary :: string

record ActionResult =
  ar_success :: bool
  ar_state_change :: StateChange
  ar_data :: "json option"
  ar_error :: "string option"
  ar_next_available_actions :: "string list"

record AgentTask =
  at_id :: "string option"
  at_goal :: string
  at_url :: string

record TaskOutput =
  to_page_state :: SemanticPageModel
  to_key_data :: "(string \<times> json) list"

record TaskResult =
  tr_task_id :: string
  tr_success :: bool
  tr_output :: "TaskOutput option"
  tr_steps_taken :: nat
  tr_error :: "string option"

section \<open>The translator: what the analyzer makes of a reply\<close>

text \<open>
  \<^verbatim>\<open>SemanticAnalyzer.analyze\<close> sends a prompt to a language model and reads the reply with
  \<^verbatim>\<open>JSON.parse\<close>. The model and the JSON parser are outside the repository; what the
  analyzer does with the reply is modelled. A reply is one of: no text block
  (\<^verbatim>\<open>content?.type !== 'text'\<close>), text that \<^verbatim>\<open>JSON.parse\<close> rejects, or a parsed object, whose
  properties may each be missing or \<^verbatim>\<open>null\<close> (\<open>None\<close>) and are otherwise taken at the type
  that \<^verbatim>\<open>buildModel\<close> casts them to.
\<close>

record translator_output =
  parsed_page_type :: "PageType option"
  parsed_title :: "string option"
  parsed_task_status :: "string option"
  parsed_key_data :: "(string \<times> json) list option"
  parsed_available_actions :: "ActionDefinition list option"
  parsed_warnings :: "string list option"
  parsed_navigation :: "NavigationLink list option"
  parsed_forms :: "FormDefinition list option"

datatype translator_reply = NoText | Malformed | Parsed translator_output

text \<open>\<^verbatim>\<open>x ?? d\<close>: the default when \<^verbatim>\<open>x\<close> is \<^verbatim>\<open>null\<close> or \<^verbatim>\<open>undefined\<close>.\<close>

definition nullish :: "'a option \<Rightarrow> 'a \<Rightarrow> 'a" where
  "nullish x d = (case x of None \<Rightarrow> d | Some v \<Rightarrow> v)"

text \<open>\<^verbatim>\<open>SemanticAnalyzer.buildModel(url, parsed)\<close>; \<open>now\<close> is its \<^verbatim>\<open>Date.now()\<close>.\<close>

definition buildModel :: "string \<Rightarrow> translator_output \<Rightarrow> int \<Rightarrow> SemanticPageModel" where
  "buildModel u parsed now =
     \<lparr>pm_url = u,
      pm_page_type = nullish (parsed_page_type parsed) Unknown,
      pm_title = nullish (parsed_title parsed) [],
      pm_task_status = nullish (parsed_task_status parsed) [],
      pm_key_data = nullish (parsed_key_data parsed) [],
      pm_available_actions = nullish (parsed_available_actions parsed) [],
      pm_warnings = nullish (parsed_warnings parsed) [],
      pm_navigation = nullish (parsed_navigation parsed) [],
      pm_forms = nullish (parsed_forms parsed) [],
      pm_timestamp = now\<rparr>"

text \<open>The em dash of the source's messages, in UTF-8.\<close>

definition em_dash :: string where
  "em_dash = [CHR 0xE2, CHR 0x80, CHR 0x94]"

text \<open>\<^verbatim>\<open>SemanticAnalyzer.fallbackModel(url)\<close>.\<close>

definition fallbackModel :: "string \<Rightarrow> int \<Rightarrow> SemanticPageModel" where
  "fallbackModel u now =
     \<lparr>pm_url = u,
      pm_page_type = Unknown,
      pm_title = [],
      pm_task_status = ''page loaded, analysis failed'',
      pm_key_data = [],
      pm_available_actions =
        [\<lparr>ad_name = ''extract_raw'',
          ad_description = ''Extract raw text content from the page'',
          ad_parameters = [],
          ad_returns = ''Raw text content of the page'',
          ad_internal = None\<rparr>],
      pm_warnings = [''semantic analysis failed '' @ em_dash @ '' falling back to raw extraction''],
      pm_navigation = [],
      pm_forms = [],
      pm_timestamp = now\<rparr>"

section \<open>The knowledge store: visits, profiles, and the tables together\<close>

text \<open>
  Table \<^verbatim>\<open>site_knowledge\<close> (domain primary key, data, last_updated, visit_count) and
  \<^verbatim>\<open>incrementVisitCount(domain)\<close>:
  \<^verbatim>\<open>INSERT ... VALUES (?, '{}', ?, 1) ON CONFLICT(domain) DO UPDATE SET
  visit_count = visit_count + 1, last_updated = excluded.last_updated\<close>.
\<close>

record knowledge_row =
  sk_domain :: string
  sk_data :: string
  sk_last_updated :: int
  sk_visit_count :: nat

fun incrementVisitCount :: "string \<Rightarrow> int \<Rightarrow> knowledge_row list \<Rightarrow> knowledge_row list" where
  "incrementVisitCount domain now [] =
     [\<lparr>sk_domain = domain, sk_data = ''{}'', sk_last_updated = now, sk_visit_count = 1\<rparr>]"
| "incrementVisitCount domain now (r # rs) =
     (if sk_domain r = domain
      then r\<lparr>sk_visit_count := sk_visit_count r + 1, sk_last_updated := now\<rparr> # rs
      else r # incrementVisitCount domain now rs)"

text \<open>
  Table \<^verbatim>\<open>site_profiles\<close> (domain primary key, page_types, auth_info, notes, last_updated);
  the two JSON arrays are lists of strings.
\<close>

record profile_row =
  sp_domain :: string
  sp_page_types :: "string list"
  sp_auth_info :: "string option"
  sp_notes :: "string list"
  sp_last_updated :: int

fun upsert_profile ::
  "string \<Rightarrow> string list \<Rightarrow> string list \<Rightarrow> int \<Rightarrow> profile_row list \<Rightarrow> profile_row list" where
  "upsert_profile domain pageTypes notes now [] =
     [\<lparr>sp_domain = domain, sp_page_types = pageTypes, sp_auth_info = None,
       sp_notes = notes, sp_last_updated = now\<rparr>]"
| "upsert_profile domain pageTypes notes now (r # rs) =
     (if sp_domain r = domain
      then r\<lparr>sp_page_types := pageTypes, sp_notes := notes, sp_last_updated := now\<rparr> # rs
      else r # upsert_profile domain pageTypes notes now rs)"

text \<open>
  \<^verbatim>\<open>updateSiteProfile(domain, pageType, note?)\<close>: the page type is added when new; a
  non-empty note that is not yet there is appended, and the oldest note dropped past twenty.
\<close>

definition updateSiteProfile ::
  "string \<Rightarrow> string \<Rightarrow> string option \<Rightarrow> int \<Rightarrow> profile_row list \<Rightarrow> profile_row list" where
  "updateSiteProfile domain pageType note now profiles =
     (let existing = find (\<lambda>r. sp_domain r = domain) profiles;
          pageTypes = (case existing of None \<Rightarrow> [] | Some r \<Rightarrow> sp_page_types r);
          notes = (case existing of None \<Rightarrow> [] | Some r \<Rightarrow> sp_notes r);
          pageTypes' = (if pageType \<in> set pageTypes then pageTypes else pageTypes @ [pageType]);
          notes' = (case note of
                      None \<Rightarrow> notes
                    | Some n \<Rightarrow>
                        if n \<noteq> [] \<and> n \<notin> set notes
                        then (let pushed = notes @ [n]
                              in if length pushed > 20 then tl pushed else pushed)
                        else notes)
      in upsert_profile domain pageTypes' notes' now profiles)"

text \<open>
  The database of a \<^verbatim>\<open>SiteMemoryStore\<close>. The table \<^verbatim>\<open>sessions\<close> is left out: no operation
  of the executor reads or writes it.
\<close>

record store =
  site_knowledge :: "knowledge_row list"
  page_model_cache :: "SemanticPageModel cache_row list"
  selector_library :: "selector_row list"
  site_profiles :: "profile_row list"

definition empty_store :: store where
  "empty_store = \<lparr>site_knowledge = [], page_model_cache = [], selector_library = [], site_profiles = []\<rparr>"

section \<open>The task executor\<close>

subsection \<open>The outside world\<close>

text \<open>
  The executor drives a browser through \<^verbatim>\<open>BrowserEngine\<close>, a wrapper around Playwright, and
  asks the translator for models. Their behaviour is a parameter: a record of operations on
  a state \<open>'e\<close> of the outside world (browser, network, clock, random source). An
  operation returns \<open>Inl message\<close> when the source's call throws an \<^verbatim>\<open>Error\<close> with that
  message, and the state after the call either way.

  \<open>Date_now\<close> reads the clock of that state, so the clock advances only with the operations
  of the outside world, not between the synchronous calls on the store that follow one.

  \<^verbatim>\<open>buildLLMContext\<close> is a parameter too: it reads the store, writes nothing, and its text
  only reaches the translator; its query groups rows with bare columns, for which SQLite
  picks a row of the group at will. \<open>js_String\<close> is JavaScript's \<^verbatim>\<open>String(value)\<close> on the
  values a caller passes, and \<open>js_String_member\<close> gives \<^verbatim>\<open>String(Object.prototype[name])\<close>,
  the text the engine renders a built-in member of every object with.
\<close>

record 'e platform =
  new_URL :: url_constructor
  Date_now :: "'e \<Rightarrow> int"
  crypto_randomUUID :: "'e \<Rightarrow> string \<times> 'e"
  settle_delay :: "'e \<Rightarrow> 'e"
  js_String :: "json \<Rightarrow> string"
  js_String_member :: "string \<Rightarrow> string"
  engine_createSession :: "'e \<Rightarrow> (string + string) \<times> 'e"
  engine_destroySession :: "string \<Rightarrow> 'e \<Rightarrow> (string + unit) \<times> 'e"
  engine_navigate :: "string \<Rightarrow> string \<Rightarrow> 'e \<Rightarrow> (string + unit) \<times> 'e"
  engine_getCurrentUrl :: "string \<Rightarrow> 'e \<Rightarrow> (string + string) \<times> 'e"
  engine_checkForCaptcha :: "string \<Rightarrow> 'e \<Rightarrow> (string + bool) \<times> 'e"
  engine_getPageHTML :: "string \<Rightarrow> 'e \<Rightarrow> (string + string) \<times> 'e"
  engine_getAccessibilityTree :: "string \<Rightarrow> 'e \<Rightarrow> (string + string) \<times> 'e"
  engine_click :: "string \<Rightarrow> string \<Rightarrow> 'e \<Rightarrow> (string + unit) \<times> 'e"
  engine_fill :: "string \<Rightarrow> string \<Rightarrow> string \<Rightarrow> 'e \<Rightarrow> (string + unit) \<times> 'e"
  llm_translate :: "string \<Rightarrow> string \<Rightarrow> string \<Rightarrow> string option \<Rightarrow> 'e \<Rightarrow> (string + translator_reply) \<times> 'e"
  memory_buildLLMContext :: "store \<Rightarrow> string \<Rightarrow> string option"

text \<open>
  What a \<^verbatim>\<open>TaskExecutor\<close> acts on: the outside world, its \<^verbatim>\<open>memory\<close> and its map
  \<^verbatim>\<open>pageModels\<close> from session identifiers to current models.
\<close>

record 'e world =
  engine :: 'e
  memory :: store
  pageModels :: "string \<rightharpoonup> SemanticPageModel"

subsection \<open>Asynchronous methods\<close>

text \<open>
  An \<^verbatim>\<open>async\<close> method is a function from the world to its outcome, \<open>Inl message\<close> for a
  rejection and \<open>Inr value\<close> for a result, and the world it leaves; what was written before
  an exception stays written. \<open>await m k\<close> is \<^verbatim>\<open>const x = await m; k(x)\<close>.
\<close>

type_synonym ('e, 'a) async = "'e world \<Rightarrow> (string + 'a) \<times> 'e world"

definition resolve :: "'a \<Rightarrow> ('e, 'a) async" where
  "resolve a w = (Inr a, w)"

definition await :: "('e, 'a) async \<Rightarrow> ('a \<Rightarrow> ('e, 'b) async) \<Rightarrow> ('e, 'b) async" where
  "await m k w = (case m w of (Inl err, w') \<Rightarrow> (Inl err, w') | (Inr a, w') \<Rightarrow> k a w')"

definition try_catch :: "('e, 'a) async \<Rightarrow> (string \<Rightarrow> ('e, 'a) async) \<Rightarrow> ('e, 'a) async" where
  "try_catch m handler w = (case m w of (Inl err, w') \<Rightarrow> handler err w' | (Inr a, w') \<Rightarrow> (Inr a, w'))"

text \<open>\<^verbatim>\<open>try { ... } finally { ... }\<close>: an exception of the \<^verbatim>\<open>finally\<close> block replaces the outcome.\<close>

definition try_finally :: "('e, 'a) async \<Rightarrow> ('e, unit) async \<Rightarrow> ('e, 'a) async" where
  "try_finally m cleanup w =
     (case m w of (outcome, w') \<Rightarrow>
        (case cleanup w' of (Inl err, w'') \<Rightarrow> (Inl err, w'') | (Inr _, w'') \<Rightarrow> (outcome, w'')))"

definition driver :: "('e \<Rightarrow> (string + 'a) \<times> 'e) \<Rightarrow> ('e, 'a) async" where
  "driver f w = (case f (engine w) of (outcome, e') \<Rightarrow> (outcome, w\<lparr>engine := e'\<rparr>))"

definition update_memory :: "(store \<Rightarrow> store) \<Rightarrow> ('e, unit) async" where
  "update_memory f w = (Inr (), w\<lparr>memory := f (memory w)\<rparr>)"

subsection \<open>Building models and results\<close>

text \<open>\<^verbatim>\<open>SemanticAnalyzer.analyze\<close>: the fallback model unless the reply parses.\<close>

definition analyze ::
  "'e platform \<Rightarrow> string \<Rightarrow> string \<Rightarrow> string \<Rightarrow> string option \<Rightarrow> ('e, SemanticPageModel) async" where
  "analyze P u html accessibilityTree siteContext =
     await (driver (llm_translate P u html accessibilityTree siteContext)) (\<lambda>reply w.
       (Inr (case reply of
               NoText \<Rightarrow> fallbackModel u (Date_now P (engine w))
             | Malformed \<Rightarrow> fallbackModel u (Date_now P (engine w))
             | Parsed parsed \<Rightarrow> buildModel u parsed (Date_now P (engine w))), w))"

text \<open>\<^verbatim>\<open>TaskExecutor.buildCaptchaModel(url)\<close>.\<close>

definition buildCaptchaModel :: "string \<Rightarrow> int \<Rightarrow> SemanticPageModel" where
  "buildCaptchaModel u now =
     \<lparr>pm_url = u,
      pm_page_type = Captcha,
      pm_title = ''CAPTCHA Challenge'',
      pm_task_status = ''blocked by CAPTCHA'',
      pm_key_data = [],
      pm_available_actions = [],
      pm_warnings = [''CAPTCHA detected '' @ em_dash @ '' automated interaction blocked''],
      pm_navigation = [],
      pm_forms = [],
      pm_timestamp = now\<rparr>"

text \<open>\<^verbatim>\<open>xs.join(sep)\<close>.\<close>

fun join :: "string \<Rightarrow> string list \<Rightarrow> string" where
  "join sep [] = []"
| "join sep [x] = x"
| "join sep (x # y # ys) = x @ sep @ join sep (y # ys)"

text \<open>\<^verbatim>\<open>TaskExecutor.errorResult(message, currentModel)\<close>.\<close>

definition errorResult :: "string \<Rightarrow> SemanticPageModel \<Rightarrow> ActionResult" where
  "errorResult message currentModel =
     \<lparr>ar_success = False,
      ar_state_change = \<lparr>sc_navigated_to = None, sc_page_type_changed = None,
                         sc_elements_changed = None, sc_form_submitted = None,
                         sc_auth_state_changed = None, sc_summary = message\<rparr>,
      ar_data = None,
      ar_error = Some message,
      ar_next_available_actions = map ad_name (pm_available_actions currentModel)\<rparr>"

text \<open>\<^verbatim>\<open>TaskExecutor.buildSummary\<close> and \<^verbatim>\<open>TaskExecutor.buildStateChange\<close>.\<close>

definition buildSummary ::
  "string \<Rightarrow> string \<Rightarrow> SemanticPageModel \<Rightarrow> SemanticPageModel \<Rightarrow> string" where
  "buildSummary urlBefore urlAfter before after =
     (if urlBefore \<noteq> urlAfter
      then ''Navigated from '' @ PageType_text (pm_page_type before) @ '' to ''
             @ PageType_text (pm_page_type after) @ ''. '' @ pm_task_status after
      else if pm_page_type before \<noteq> pm_page_type after
      then ''Page changed from '' @ PageType_text (pm_page_type before) @ '' to ''
             @ PageType_text (pm_page_type after)
      else ''Action completed. Page: '' @ pm_task_status after)"

definition buildStateChange ::
  "string \<Rightarrow> string \<Rightarrow> SemanticPageModel \<Rightarrow> SemanticPageModel \<Rightarrow> StateChange" where
  "buildStateChange urlBefore urlAfter modelBefore modelAfter =
     (let navigated = (urlBefore \<noteq> urlAfter);
          typeChanged = (pm_page_type modelBefore \<noteq> pm_page_type modelAfter)
      in \<lparr>sc_navigated_to = (if navigated then Some urlAfter else None),
          sc_page_type_changed =
            (if typeChanged then Some (pm_page_type modelBefore, pm_page_type modelAfter) else None),
          sc_elements_changed = None,
          sc_form_submitted = Some (pm_forms modelBefore \<noteq> [] \<and> navigated),
          sc_auth_state_changed =
            Some (pm_page_type modelBefore = Login \<and> pm_page_type modelAfter \<noteq> Login),
          sc_summary = buildSummary urlBefore urlAfter modelBefore modelAfter\<rparr>)"

subsection \<open>Refreshing and reading the current model\<close>

text \<open>
  \<^verbatim>\<open>TaskExecutor.refreshModel(sessionId)\<close>. On a CAPTCHA the fixed model is returned at
  once. Otherwise the cache is asked; on a hit the model becomes the session's current one.
  On a miss the page is fetched and analysed, the visit, the page type and the model are
  written to the store, and the model becomes the current one.
\<close>

definition refreshModel :: "'e platform \<Rightarrow> string \<Rightarrow> ('e, SemanticPageModel) async" where
  "refreshModel P sessionId =
     await (driver (engine_getCurrentUrl P sessionId)) (\<lambda>u.
     await (driver (engine_checkForCaptcha P sessionId)) (\<lambda>captcha.
       if captcha then (\<lambda>w. (Inr (buildCaptchaModel u (Date_now P (engine w))), w))
       else (\<lambda>w.
         let domain = TaskExecutor_getDomain (new_URL P) u;
             (cached, cache') =
               getCachedModel (new_URL P) (Date_now P (engine w)) u (page_model_cache (memory w));
             w1 = w\<lparr>memory := (memory w)\<lparr>page_model_cache := cache'\<rparr>\<rparr>
         in case cached of
              Some m \<Rightarrow> (Inr m, w1\<lparr>pageModels := (pageModels w1)(sessionId \<mapsto> m)\<rparr>)
            | None \<Rightarrow>
                (let siteContext = memory_buildLLMContext P (memory w1) domain
                 in await (driver (engine_getPageHTML P sessionId)) (\<lambda>html.
                    await (driver (engine_getAccessibilityTree P sessionId)) (\<lambda>accessTree.
                    await (analyze P u html accessTree siteContext) (\<lambda>model.
                    await (\<lambda>w2. update_memory (\<lambda>db.
                             db\<lparr>site_knowledge :=
                                  incrementVisitCount domain (Date_now P (engine w2)) (site_knowledge db),
                                site_profiles :=
                                  updateSiteProfile domain (PageType_text (pm_page_type model)) None
                                    (Date_now P (engine w2)) (site_profiles db),
                                page_model_cache :=
                                  cacheModel (new_URL P) (Date_now P (engine w2)) u model
                                    (page_model_cache db)\<rparr>) w2) (\<lambda>_ w3.
                      (Inr model, w3\<lparr>pageModels := (pageModels w3)(sessionId \<mapsto> model)\<rparr>))))))
                  w1)))"

text \<open>\<^verbatim>\<open>TaskExecutor.navigate\<close> and \<^verbatim>\<open>TaskExecutor.getPageState\<close>.\<close>

definition navigate :: "'e platform \<Rightarrow> string \<Rightarrow> string \<Rightarrow> ('e, SemanticPageModel) async" where
  "navigate P sessionId u =
     await (driver (engine_navigate P sessionId u)) (\<lambda>_. refreshModel P sessionId)"

definition getPageState :: "'e platform \<Rightarrow> string \<Rightarrow> ('e, SemanticPageModel) async" where
  "getPageState P sessionId w =
     (case pageModels w sessionId of Some m \<Rightarrow> (Inr m, w) | None \<Rightarrow> refreshModel P sessionId w)"

subsection \<open>Executing an action\<close>

text \<open>An optional string as a condition: \<^verbatim>\<open>undefined\<close> and the empty string are both falsy.\<close>

definition or_empty :: "string option \<Rightarrow> string" where
  "or_empty s = (case s of None \<Rightarrow> [] | Some v \<Rightarrow> v)"

definition startsWith :: "string \<Rightarrow> string \<Rightarrow> bool" where
  "startsWith s p \<longleftrightarrow> take (length p) s = p"

text \<open>
  \<^verbatim>\<open>params[paramName]\<close> and the \<^verbatim>\<open>String(value)\<close> of a value that is not \<^verbatim>\<open>undefined\<close>.
  \<^verbatim>\<open>params\<close> is a plain object of JSON values, as the tool call's arguments are, given by
  its own entries; none of them is \<^verbatim>\<open>undefined\<close>. A name that is not among them is looked
  up in \<^verbatim>\<open>Object.prototype\<close>, so the names of its members read as a function or an object,
  not as \<^verbatim>\<open>undefined\<close>, and a field with such a name is filled.
\<close>

definition Object_prototype_members :: "string list" where
  "Object_prototype_members =
     [''constructor'', ''__defineGetter__'', ''__defineSetter__'', ''hasOwnProperty'',
      ''__lookupGetter__'', ''__lookupSetter__'', ''isPrototypeOf'', ''propertyIsEnumerable'',
      ''toString'', ''valueOf'', ''__proto__'', ''toLocaleString'']"

definition read_param :: "'e platform \<Rightarrow> (string \<times> json) list \<Rightarrow> string \<Rightarrow> string option" where
  "read_param P params paramName =
     (case map_of params paramName of
        Some v \<Rightarrow> Some (js_String P v)
      | None \<Rightarrow>
          if paramName \<in> set Object_prototype_members then Some (js_String_member P paramName)
          else None)"

text \<open>
  The loop of \<^verbatim>\<open>performAction\<close> over \<^verbatim>\<open>Object.entries(internal.field_map)\<close>: a field is filled
  when \<^verbatim>\<open>params[paramName]\<close> is not \<^verbatim>\<open>undefined\<close> and the selector is not empty; the first
  exception ends it.
\<close>

fun fill_fields ::
  "'e platform \<Rightarrow> string \<Rightarrow> (string \<times> json) list \<Rightarrow> (string \<times> string) list \<Rightarrow> ('e, unit) async" where
  "fill_fields P sessionId params [] = resolve ()"
| "fill_fields P sessionId params ((paramName, selector) # entries) =
     (case read_param P params paramName of
        Some rendered \<Rightarrow>
          if selector \<noteq> []
          then await (driver (engine_fill P sessionId selector rendered))
                 (\<lambda>_. fill_fields P sessionId params entries)
          else fill_fields P sessionId params entries
      | None \<Rightarrow> fill_fields P sessionId params entries)"

text \<open>
  Strategy 2 of \<^verbatim>\<open>performAction\<close>, and the exception that ends it: the best selector the
  memory knows for the domain and the action's name is clicked.
\<close>

definition no_selector_message :: "string \<Rightarrow> string" where
  "no_selector_message name =
     ''Cannot execute '' @ [CHR 0x27] @ name @ [CHR 0x27] @ '' '' @ em_dash @ '' no selector available. ''
     @ ''This action needs to be executed at least once with explicit selectors to learn from.''"

definition remembered_click :: "'e platform \<Rightarrow> string \<Rightarrow> ActionDefinition \<Rightarrow> string \<Rightarrow> ('e, unit) async" where
  "remembered_click P sessionId action domain w =
     (let remembered = or_empty (getBestSelector domain (ad_name action) (selector_library (memory w)))
      in if remembered \<noteq> [] then driver (engine_click P sessionId remembered) w
         else (Inl (no_selector_message (ad_name action)), w))"

text \<open>\<^verbatim>\<open>TaskExecutor.performAction(sessionId, action, params, domain)\<close>.\<close>

definition performAction ::
  "'e platform \<Rightarrow> string \<Rightarrow> ActionDefinition \<Rightarrow> (string \<times> json) list \<Rightarrow> string \<Rightarrow> ('e, unit) async" where
  "performAction P sessionId action params domain =
     (case ad_internal action of
        None \<Rightarrow> remembered_click P sessionId action domain
      | Some internal \<Rightarrow>
          if ai_type internal = Click \<and> or_empty (ai_selector internal) \<noteq> []
          then driver (engine_click P sessionId (or_empty (ai_selector internal)))
          else if (ai_type internal = Fill \<or> ai_type internal = FormHint) \<and> ai_field_map internal \<noteq> None
          then await (fill_fields P sessionId params (nullish (ai_field_map internal) []))
                 (\<lambda>_. if or_empty (ai_submit_selector internal) \<noteq> []
                       then driver (engine_click P sessionId (or_empty (ai_submit_selector internal)))
                       else remembered_click P sessionId action domain)
          else if ai_type internal = Navigate \<and> or_empty (ai_selector internal) \<noteq> []
          then (let sel = or_empty (ai_selector internal)
                in if startsWith sel ''http://'' \<or> startsWith sel ''https://''
                   then driver (engine_navigate P sessionId sel)
                   else driver (engine_click P sessionId sel))
          else remembered_click P sessionId action domain)"

text \<open>
  \<^verbatim>\<open>TaskExecutor.learnFromAction(domain, actionName, action, success)\<close>, on the selector
  library: nothing without a hint; otherwise an outcome for the hint's selector, for each
  non-empty selector of its field map under \<^verbatim>\<open>`${actionName}.${paramName}`\<close>, and for its submit
  selector under \<^verbatim>\<open>`${actionName}.submit`\<close>.
\<close>

definition learnFromAction ::
  "string \<Rightarrow> string \<Rightarrow> ActionDefinition \<Rightarrow> bool \<Rightarrow> int \<Rightarrow> selector_row list \<Rightarrow> selector_row list" where
  "learnFromAction domain actionName action success now lib =
     (case ad_internal action of
        None \<Rightarrow> lib
      | Some internal \<Rightarrow>
          (let lib1 = (if or_empty (ai_selector internal) \<noteq> []
                       then recordSelectorOutcome domain actionName (or_empty (ai_selector internal))
                              success now lib
                       else lib);
               lib2 = (case ai_field_map internal of
                         None \<Rightarrow> lib1
                       | Some field_map \<Rightarrow>
                           fold (\<lambda>(paramName, selector) l.
                                   if selector \<noteq> []
                                   then recordSelectorOutcome domain (actionName @ ''.'' @ paramName)
                                          selector success now l
                                   else l) field_map lib1)
           in if or_empty (ai_submit_selector internal) \<noteq> []
              then recordSelectorOutcome domain (actionName @ ''.submit'')
                     (or_empty (ai_submit_selector internal)) success now lib2
              else lib2))"

definition transition_note :: "string \<Rightarrow> SemanticPageModel \<Rightarrow> SemanticPageModel \<Rightarrow> string" where
  "transition_note actionName model newModel =
     ''action '' @ [CHR 0x27] @ actionName @ [CHR 0x27] @ '' on '' @ PageType_text (pm_page_type model)
     @ '' leads to '' @ PageType_text (pm_page_type newModel)"

text \<open>
  \<^verbatim>\<open>TaskExecutor.executeAction(sessionId, actionName, params)\<close>. \<open>attempt\<close> is the body of
  the \<^verbatim>\<open>try\<close> block and \<open>failed\<close> the \<^verbatim>\<open>catch\<close> block.
\<close>

definition attempt ::
  "'e platform \<Rightarrow> string \<Rightarrow> string \<Rightarrow> (string \<times> json) list \<Rightarrow> SemanticPageModel \<Rightarrow> ActionDefinition
     \<Rightarrow> string \<Rightarrow> string \<Rightarrow> ('e, ActionResult) async" where
  "attempt P sessionId actionName params model action urlBefore domain =
     await (performAction P sessionId action params domain) (\<lambda>_.
     await (\<lambda>w. (Inr (), w\<lparr>engine := settle_delay P (engine w)\<rparr>)) (\<lambda>_.
     await (driver (engine_checkForCaptcha P sessionId)) (\<lambda>captcha.
       if captcha then resolve (errorResult ''CAPTCHA appeared after action.'' model)
       else
         await (driver (engine_getCurrentUrl P sessionId)) (\<lambda>urlAfter.
         await (update_memory (\<lambda>db.
                  if urlAfter \<noteq> urlBefore
                  then db\<lparr>page_model_cache := invalidateCache domain (page_model_cache db)\<rparr>
                  else db)) (\<lambda>_.
         await (refreshModel P sessionId) (\<lambda>newModel.
         await (\<lambda>w. update_memory (\<lambda>db.
                  db\<lparr>selector_library :=
                       learnFromAction domain actionName action True (Date_now P (engine w))
                         (selector_library db),
                     site_profiles :=
                       updateSiteProfile domain (PageType_text (pm_page_type newModel))
                         (Some (transition_note actionName model newModel))
                         (Date_now P (engine w)) (site_profiles db)\<rparr>) w) (\<lambda>_.
         resolve
           \<lparr>ar_success = True,
            ar_state_change = buildStateChange urlBefore urlAfter model newModel,
            ar_data = None,
            ar_error = None,
            ar_next_available_actions = map ad_name (pm_available_actions newModel)\<rparr>)))))))"

definition failed ::
  "'e platform \<Rightarrow> string \<Rightarrow> SemanticPageModel \<Rightarrow> ActionDefinition \<Rightarrow> string \<Rightarrow> string
     \<Rightarrow> ('e, ActionResult) async" where
  "failed P actionName model action domain err =
     await (\<lambda>w. update_memory (\<lambda>db.
              db\<lparr>selector_library :=
                   learnFromAction domain actionName action False (Date_now P (engine w))
                     (selector_library db)\<rparr>) w) (\<lambda>_.
     resolve (errorResult (''Action '' @ [CHR 0x27] @ actionName @ [CHR 0x27] @ '' failed: '' @ err) model))"

definition executeAction ::
  "'e platform \<Rightarrow> string \<Rightarrow> string \<Rightarrow> (string \<times> json) list \<Rightarrow> ('e, ActionResult) async" where
  "executeAction P sessionId actionName params =
     await (getPageState P sessionId) (\<lambda>model.
       case find (\<lambda>a. ad_name a = actionName) (pm_available_actions model) of
         None \<Rightarrow>
           resolve (errorResult
             (''Action '' @ [CHR 0x27] @ actionName @ [CHR 0x27] @ '' not available. Available: ''
                @ join '', '' (map ad_name (pm_available_actions model))) model)
       | Some action \<Rightarrow>
           await (driver (engine_getCurrentUrl P sessionId)) (\<lambda>urlBefore.
             try_catch
               (attempt P sessionId actionName params model action urlBefore
                  (TaskExecutor_getDomain (new_URL P) urlBefore))
               (failed P actionName model action (TaskExecutor_getDomain (new_URL P) urlBefore))))"

subsection \<open>Parallel tasks\<close>

text \<open>\<^verbatim>\<open>task.id ?? randomUUID()\<close>.\<close>

definition task_id :: "'e platform \<Rightarrow> AgentTask \<Rightarrow> ('e, string) async" where
  "task_id P task w =
     (case at_id task of
        Some i \<Rightarrow> (Inr i, w)
      | None \<Rightarrow> (case crypto_randomUUID P (engine w) of (i, e') \<Rightarrow> (Inr i, w\<lparr>engine := e'\<rparr>)))"

text \<open>
  \<^verbatim>\<open>TaskExecutor.runTask(task)\<close>: the session is created before the \<^verbatim>\<open>try\<close>; the \<^verbatim>\<open>try\<close>
  navigates, the \<^verbatim>\<open>catch\<close> turns an exception into a failed result, the \<^verbatim>\<open>finally\<close> destroys
  the session.
\<close>

definition runTask :: "'e platform \<Rightarrow> AgentTask \<Rightarrow> ('e, TaskResult) async" where
  "runTask P task =
     await (driver (engine_createSession P)) (\<lambda>sessionId.
       try_finally
         (try_catch
            (await (navigate P sessionId (at_url task)) (\<lambda>model.
             await (task_id P task) (\<lambda>i.
             resolve \<lparr>tr_task_id = i, tr_success = True,
                      tr_output = Some \<lparr>to_page_state = model, to_key_data = pm_key_data model\<rparr>,
                      tr_steps_taken = 1, tr_error = None\<rparr>)))
            (\<lambda>err.
             await (task_id P task) (\<lambda>i.
             resolve \<lparr>tr_task_id = i, tr_success = False, tr_output = None,
                      tr_steps_taken = 0, tr_error = Some err\<rparr>)))
         (driver (engine_destroySession P sessionId)))"

text \<open>
  \<^verbatim>\<open>TaskExecutor.runParallel(tasks)\<close> is \<^verbatim>\<open>Promise.all(tasks.map((task) => this.runTask(task)))\<close>.
  Every task is started and none is cancelled; the promise resolves to the results in the
  order of the tasks when all resolve, and rejects as soon as one rejects. The model runs
  the tasks one after the other on the shared world, so it does not follow how their steps
  interleave; which task's exception leaves \<^verbatim>\<open>runTask\<close>, and what \<^verbatim>\<open>Promise.all\<close> makes of
  the outcomes, does not depend on that. Of several rejections the model reports the one
  of the earliest task.
\<close>

fun runParallel :: "'e platform \<Rightarrow> AgentTask list \<Rightarrow> ('e, TaskResult list) async" where
  "runParallel P [] w = (Inr [], w)"
| "runParallel P (task # tasks) w =
     (case runTask P task w of (outcome, w1) \<Rightarrow>
        (case runParallel P tasks w1 of (outcomes, w2) \<Rightarrow>
           (case outcome of
              Inl err \<Rightarrow> (Inl err, w2)
            | Inr result \<Rightarrow>
                (case outcomes of
                   Inl err \<Rightarrow> (Inl err, w2)
                 | Inr results \<Rightarrow> (Inr (result # results), w2)))))"

section \<open>Observations on the selector library\<close>

text \<open>
  What the library has recorded for a key (domain, action qualifier, selector): the
  successes and the failures of the rows with that key.
\<close>

definition recorded_successes :: "selector_row list \<Rightarrow> string \<times> string \<times> string \<Rightarrow> nat" where
  "recorded_successes lib k = sum_list (map sl_success_count (filter (\<lambda>r. sl_key r = k) lib))"

definition recorded_failures :: "selector_row list \<Rightarrow> string \<times> string \<times> string \<Rightarrow> nat" where
  "recorded_failures lib k = sum_list (map sl_fail_count (filter (\<lambda>r. sl_key r = k) lib))"

section \<open>Concrete data used to exercise the theorems\<close>

text \<open>
  The selector library of the repository's unit test (two successes for \<^verbatim>\<open>#add-btn\<close>, one
  failure for \<^verbatim>\<open>.old-btn\<close>), with one first success for a new selector added.
\<close>

definition shop_lib :: "selector_row list" where
  "shop_lib = recordSelectorOutcome ''shop.com'' ''add_to_cart'' ''.new-btn'' True 4
     (recordSelectorOutcome ''shop.com'' ''add_to_cart'' ''.old-btn'' False 3
       (recordSelectorOutcome ''shop.com'' ''add_to_cart'' ''#add-btn'' True 2
         (recordSelectorOutcome ''shop.com'' ''add_to_cart'' ''#add-btn'' True 1 [])))"

text \<open>
  A library with several rows of one key: \<^verbatim>\<open>#a\<close> and \<^verbatim>\<open>#b\<close> never failed and differ in
  attempts, \<^verbatim>\<open>#c\<close> has the most attempts of the key and one failure, \<^verbatim>\<open>#d\<close> was tried once,
  \<^verbatim>\<open>#e\<close> always failed; the rows of the action \<^verbatim>\<open>checkout\<close> failed more often than not, and
  the row of the other domain outdoes all of them.
\<close>

definition ranked_lib :: "selector_row list" where
  "ranked_lib =
     [\<lparr>sl_domain = ''shop.com'', sl_action_name = ''add_to_cart'', sl_selector = ''#e'', sl_success_count = 0, sl_fail_count = 2, sl_last_used = 1\<rparr>,
      \<lparr>sl_domain = ''shop.com'', sl_action_name = ''add_to_cart'', sl_selector = ''#c'', sl_success_count = 5, sl_fail_count = 1, sl_last_used = 2\<rparr>,
      \<lparr>sl_domain = ''shop.com'', sl_action_name = ''add_to_cart'', sl_selector = ''#a'', sl_success_count = 2, sl_fail_count = 0, sl_last_used = 3\<rparr>,
      \<lparr>sl_domain = ''other.com'', sl_action_name = ''add_to_cart'', sl_selector = ''#z'', sl_success_count = 9, sl_fail_count = 0, sl_last_used = 4\<rparr>,
      \<lparr>sl_domain = ''shop.com'', sl_action_name = ''add_to_cart'', sl_selector = ''#b'', sl_success_count = 3, sl_fail_count = 0, sl_last_used = 5\<rparr>,
      \<lparr>sl_domain = ''shop.com'', sl_action_name = ''checkout'', sl_selector = ''#x'', sl_success_count = 1, sl_fail_count = 2, sl_last_used = 6\<rparr>,
      \<lparr>sl_domain = ''shop.com'', sl_action_name = ''add_to_cart'', sl_selector = ''#d'', sl_success_count = 1, sl_fail_count = 0, sl_last_used = 7\<rparr>,
      \<lparr>sl_domain = ''shop.com'', sl_action_name = ''checkout'', sl_selector = ''#y'', sl_success_count = 1, sl_fail_count = 0, sl_last_used = 8\<rparr>]"

text \<open>
  Two long-lived rows of one key: \<^verbatim>\<open>#often\<close> with \<open>2 ^ 28 - 2\<close> successes and two failures,
  \<^verbatim>\<open>#seldom\<close> with \<open>2 ^ 27\<close> successes and one failure.
\<close>

definition rounding_lib :: "selector_row list" where
  "rounding_lib =
     [\<lparr>sl_domain = ''shop.com'', sl_action_name = ''add_to_cart'', sl_selector = ''#seldom'', sl_success_count = 134217728, sl_fail_count = 1, sl_last_used = 1\<rparr>,
      \<lparr>sl_domain = ''shop.com'', sl_action_name = ''add_to_cart'', sl_selector = ''#often'', sl_success_count = 268435454, sl_fail_count = 2, sl_last_used = 2\<rparr>]"

subsection \<open>A simulated driver and translator\<close>

text \<open>
  A small outside world for closed statements: a browser that may not have been launched,
  the open pages with their URLs, a counter naming the sessions, and a clock.
  \<open>sim_createSession\<close> follows \<^verbatim>\<open>BrowserEngine.createSession\<close>
  (\<^verbatim>\<open>if (!this.browser) throw new Error('Browser not launched')\<close>), and every operation on a
  session follows \<^verbatim>\<open>getPage\<close>, which throws for an unknown session. The host
  \<^verbatim>\<open>down.example\<close> does not resolve, the element \<^verbatim>\<open>#missing\<close> is on no page, and a URL
  holding \<^verbatim>\<open>/captcha\<close> or \<^verbatim>\<open>/challenge\<close> is a CAPTCHA page, as in \<^verbatim>\<open>checkForCaptcha\<close>.
\<close>

record sim =
  sim_launched :: bool
  sim_pages :: "(string \<times> string) list"
  sim_created :: nat
  sim_clock :: int

definition sim_getPage :: "string \<Rightarrow> sim \<Rightarrow> string + string" where
  "sim_getPage sessionId e =
     (case map_of (sim_pages e) sessionId of
        None \<Rightarrow> Inl (''Session '' @ sessionId @ '' not found or not initialized'')
      | Some u \<Rightarrow> Inr u)"

definition sim_createSession :: "sim \<Rightarrow> (string + string) \<times> sim" where
  "sim_createSession e =
     (if \<not> sim_launched e then (Inl ''Browser not launched'', e)
      else (let sessionId = ''session-'' @ replicate (Suc (sim_created e)) (CHR ''i'')
            in (Inr sessionId,
                e\<lparr>sim_pages := (sessionId, ''about:blank'') # sim_pages e,
                  sim_created := Suc (sim_created e)\<rparr>)))"

definition sim_destroySession :: "string \<Rightarrow> sim \<Rightarrow> (string + unit) \<times> sim" where
  "sim_destroySession sessionId e =
     (Inr (), e\<lparr>sim_pages := filter (\<lambda>(s, u). s \<noteq> sessionId) (sim_pages e)\<rparr>)"

definition sim_navigate :: "string \<Rightarrow> string \<Rightarrow> sim \<Rightarrow> (string + unit) \<times> sim" where
  "sim_navigate sessionId u e =
     (case sim_getPage sessionId e of
        Inl err \<Rightarrow> (Inl err, e)
      | Inr _ \<Rightarrow>
          if u = ''https://down.example/'' then (Inl ''net::ERR_NAME_NOT_RESOLVED'', e)
          else (Inr (), e\<lparr>sim_pages := (sessionId, u) # sim_pages e\<rparr>))"

definition sim_getCurrentUrl :: "string \<Rightarrow> sim \<Rightarrow> (string + string) \<times> sim" where
  "sim_getCurrentUrl sessionId e = (sim_getPage sessionId e, e)"

fun string_includes :: "string \<Rightarrow> string \<Rightarrow> bool" where
  "string_includes [] p \<longleftrightarrow> p = []"
| "string_includes (c # cs) p \<longleftrightarrow> take (length p) (c # cs) = p \<or> string_includes cs p"

definition sim_checkForCaptcha :: "string \<Rightarrow> sim \<Rightarrow> (string + bool) \<times> sim" where
  "sim_checkForCaptcha sessionId e =
     (case sim_getPage sessionId e of
        Inl err \<Rightarrow> (Inl err, e)
      | Inr u \<Rightarrow> (Inr (string_includes u ''/captcha'' \<or> string_includes u ''/challenge''), e))"

definition sim_content :: "string \<Rightarrow> string \<Rightarrow> sim \<Rightarrow> (string + string) \<times> sim" where
  "sim_content text sessionId e =
     (case sim_getPage sessionId e of Inl err \<Rightarrow> (Inl err, e) | Inr _ \<Rightarrow> (Inr text, e))"

definition sim_click :: "string \<Rightarrow> string \<Rightarrow> sim \<Rightarrow> (string + unit) \<times> sim" where
  "sim_click sessionId selector e =
     (case sim_getPage sessionId e of
        Inl err \<Rightarrow> (Inl err, e)
      | Inr _ \<Rightarrow>
          if selector = ''#missing'' then (Inl ''Timeout 10000ms exceeded.'', e) else (Inr (), e))"

definition sim_fill :: "string \<Rightarrow> string \<Rightarrow> string \<Rightarrow> sim \<Rightarrow> (string + unit) \<times> sim" where
  "sim_fill sessionId selector text e = sim_click sessionId selector e"

text \<open>The pages the simulated translator knows, and its replies.\<close>

definition authenticate_action :: ActionDefinition where
  "authenticate_action =
     \<lparr>ad_name = ''authenticate'',
      ad_description = ''Log in with credentials'',
      ad_parameters =
        [\<lparr>pd_name = ''email'', pd_type = PString, pd_description = ''Email address'',
          pd_required = True, pd_example = None\<rparr>],
      ad_returns = ''Authenticated session state'',
      ad_internal =
        Some \<lparr>ai_type = FormHint, ai_selector = None,
              ai_field_map = Some [(''email'', ''#email'')],
              ai_submit_selector = Some ''#missing''\<rparr>\<rparr>"

definition add_to_cart_action :: ActionDefinition where
  "add_to_cart_action =
     \<lparr>ad_name = ''add_to_cart'',
      ad_description = ''Add the item to the cart'',
      ad_parameters = [],
      ad_returns = ''Updated cart'',
      ad_internal = None\<rparr>"

definition login_reply :: translator_output where
  "login_reply =
     \<lparr>parsed_page_type = Some Login,
      parsed_title = None,
      parsed_task_status = Some ''ready for authentication'',
      parsed_key_data = Some [(''site'', JStr ''test'')],
      parsed_available_actions = Some [authenticate_action],
      parsed_warnings = Some [],
      parsed_navigation = Some [],
      parsed_forms = Some []\<rparr>"

definition item_reply :: translator_output where
  "item_reply =
     \<lparr>parsed_page_type = Some Product,
      parsed_title = None,
      parsed_task_status = Some ''showing item'',
      parsed_key_data = Some [(''price'', JNum 12)],
      parsed_available_actions = Some [add_to_cart_action],
      parsed_warnings = None,
      parsed_navigation = None,
      parsed_forms = None\<rparr>"

definition wide_reply :: translator_output where
  "wide_reply =
     \<lparr>parsed_page_type = Some Listing,
      parsed_title = None,
      parsed_task_status = Some ''showing 11 results'',
      parsed_key_data =
        Some [(''k01'', JNum 1), (''k02'', JNum 2), (''k03'', JNum 3), (''k04'', JNum 4),
              (''k05'', JNum 5), (''k06'', JNum 6), (''k07'', JNum 7), (''k08'', JNum 8),
              (''k09'', JNum 9), (''k10'', JNum 10), (''k11'', JNum 11)],
      parsed_available_actions = None,
      parsed_warnings = None,
      parsed_navigation = None,
      parsed_forms = None\<rparr>"

definition sim_translate ::
  "string \<Rightarrow> string \<Rightarrow> string \<Rightarrow> string option \<Rightarrow> sim \<Rightarrow> (string + translator_reply) \<times> sim" where
  "sim_translate u html accessTree siteContext e =
     (if u = ''https://shop.example/login'' then (Inr (Parsed login_reply), e)
      else if u = ''https://shop.com/item'' then (Inr (Parsed item_reply), e)
      else if u = ''https://wide.example/'' then (Inr (Parsed wide_reply), e)
      else (Inr Malformed, e))"

text \<open>
  \<^verbatim>\<open>String(value)\<close> on strings, \<^verbatim>\<open>null\<close> and booleans; numbers and arrays, which no run below
  passes as a parameter, are not rendered.
\<close>

definition sim_String :: "json \<Rightarrow> string" where
  "sim_String v = (case v of JStr s \<Rightarrow> s | JNull \<Rightarrow> ''null'' | JBool b \<Rightarrow> (if b then ''true'' else ''false'')
                   | _ \<Rightarrow> ''[object Object]'')"

text \<open>\<^verbatim>\<open>String\<close> of a member of \<^verbatim>\<open>Object.prototype\<close>, as V8 renders it.\<close>

definition sim_String_member :: "string \<Rightarrow> string" where
  "sim_String_member name =
     (if name = ''__proto__'' then ''[object Object]''
      else if name = ''constructor'' then ''function Object() { [native code] }''
      else ''function '' @ name @ ''() { [native code] }'')"

definition sim_platform :: "sim platform" where
  "sim_platform =
     \<lparr>new_URL = URL_parse,
      Date_now = sim_clock,
      crypto_randomUUID = (\<lambda>e. (''00000000-0000-4000-8000-000000000000'', e)),
      settle_delay = (\<lambda>e. e\<lparr>sim_clock := sim_clock e + 500\<rparr>),
      js_String = sim_String,
      js_String_member = sim_String_member,
      engine_createSession = sim_createSession,
      engine_destroySession = sim_destroySession,
      engine_navigate = sim_navigate,
      engine_getCurrentUrl = sim_getCurrentUrl,
      engine_checkForCaptcha = sim_checkForCaptcha,
      engine_getPageHTML = sim_content ''<html></html>'',
      engine_getAccessibilityTree = sim_content ''[]'',
      engine_click = sim_click,
      engine_fill = sim_fill,
      llm_translate = sim_translate,
      memory_buildLLMContext = (\<lambda>db domain. None)\<rparr>"

text \<open>Worlds: a browser with the given pages open, a store, and the current models.\<close>

definition sim_world ::
  "bool \<Rightarrow> (string \<times> string) list \<Rightarrow> store \<Rightarrow> (string \<times> SemanticPageModel) list \<Rightarrow> sim world" where
  "sim_world launched pages db models =
     \<lparr>engine = \<lparr>sim_launched = launched, sim_pages = pages, sim_created = 0, sim_clock = 1000\<rparr>,
      memory = db,
      pageModels = map_of models\<rparr>"

definition three_tasks :: "AgentTask list" where
  "three_tasks =
     [\<lparr>at_id = Some ''a'', at_goal = ''analyze page'', at_url = ''https://shop.example/login''\<rparr>,
      \<lparr>at_id = Some ''b'', at_goal = ''analyze page'', at_url = ''https://down.example/''\<rparr>,
      \<lparr>at_id = Some ''c'', at_goal = ''analyze page'', at_url = ''https://shop.com/item''\<rparr>]"

definition login_model :: SemanticPageModel where
  "login_model = buildModel ''https://shop.example/login'' login_reply 900"

definition item_model :: SemanticPageModel where
  "item_model = buildModel ''https://shop.com/item'' item_reply 900"

text \<open>A session on the login page, with its model current and an empty store.\<close>

definition login_world :: "sim world" where
  "login_world = sim_world True [(''s'', ''https://shop.example/login'')] empty_store [(''s'', login_model)]"

text \<open>A session on an item page, with its model current and the unit test's selectors learned.\<close>

definition item_world :: "sim world" where
  "item_world =
     sim_world True [(''s'', ''https://shop.com/item'')]
       (empty_store\<lparr>selector_library := shop_lib\<rparr>) [(''s'', item_model)]"

text \<open>The session of \<open>login_world\<close> after the site has put up a challenge page.\<close>

definition challenged_world :: "sim world" where
  "challenged_world =
     sim_world True [(''s'', ''https://shop.example/captcha'')] empty_store [(''s'', login_model)]"

text \<open>A fresh session on a page for which the translator reports eleven key facts.\<close>

definition wide_world :: "sim world" where
  "wide_world = sim_world True [(''s'', ''https://wide.example/'')] empty_store []"

section \<open>Properties of the double-precision quotient\<close>

text \<open>
  The quotient of counters is within \<open>1 / 2 ^ 53\<close> of the exact ratio, and depends on the
  ratio alone. Two ratios with denominators up to \<open>2 ^ 25\<close> differ by at least \<open>1 / 2 ^ 50\<close>
  when they differ, so on such counters the doubles compare as the exact ratios do.
\<close>

lemma ilog2_bounds: "0 < n \<Longrightarrow> 2 ^ ilog2 n \<le> n \<and> n < 2 ^ Suc (ilog2 n)"
proof (induction n rule: ilog2.induct)
  case (1 n)
  show ?case
  proof (cases "n < 2")
    case True
    with "1.prems" have "n = 1" by simp
    then show ?thesis by (simp add: ilog2.simps)
  next
    case False
    then have pos: "0 < n div 2" by simp
    from "1.IH" [OF False pos]
    have lo: "2 ^ ilog2 (n div 2) \<le> n div 2" and hi: "n div 2 < 2 ^ Suc (ilog2 (n div 2))" by auto
    have eq: "ilog2 n = Suc (ilog2 (n div 2))"
      using False by (subst ilog2.simps) simp
    from lo have "2 * 2 ^ ilog2 (n div 2) \<le> n" by simp
    moreover from hi have "n < 2 * 2 ^ Suc (ilog2 (n div 2))" by simp
    ultimately show ?thesis by (simp add: eq)
  qed
qed

lemma ilog2_less: "n < 2 ^ k \<Longrightarrow> 0 < k \<Longrightarrow> ilog2 n < k"
proof (cases "n = 0")
  case True
  assume "0 < k"
  with True show ?thesis by (simp add: ilog2.simps)
next
  case False
  assume "n < 2 ^ k"
  moreover from False have "(2::nat) ^ ilog2 n \<le> n" using ilog2_bounds [of n] by simp
  ultimately have "(2::nat) ^ ilog2 n < 2 ^ k" by (rule le_less_trans [rotated])
  then show ?thesis by (simp add: power_strict_increasing_iff)
qed

lemma to_REAL_exact: "n < 2 ^ 53 \<Longrightarrow> to_REAL n = n"
  using ilog2_less [of n 53] by (simp add: to_REAL_def Let_def)

lemma round_half_even_error: "\<bar>of_int (round_half_even q) - q\<bar> \<le> 1 / 2"
proof -
  have "of_int \<lfloor>q\<rfloor> \<le> q" "q < of_int \<lfloor>q\<rfloor> + 1" by linarith+
  then show ?thesis
    by (auto simp: round_half_even_def Let_def)
qed

lemma round_half_even_of_int: "round_half_even (of_int k) = k"
  by (simp add: round_half_even_def)

lemma REAL_divide_shape:
  assumes n: "0 < n" and d: "0 < d"
  shows "\<exists>e. 2 powi e \<le> (of_nat n / of_nat d :: rat) \<and> (of_nat n / of_nat d :: rat) < 2 powi (e + 1) \<and>
             REAL_divide n d
               = of_int (round_half_even ((of_nat n / of_nat d) / 2 powi (e - 52))) * 2 powi (e - 52)"
proof -
  define a :: rat where "a = 2 ^ ilog2 n"
  define b :: rat where "b = 2 ^ ilog2 d"
  define N :: rat where "N = of_nat n"
  define D :: rat where "D = of_nat d"
  define e0 where "e0 = int (ilog2 n) - int (ilog2 d)"
  define e where "e = (if D * 2 powi e0 \<le> N then e0 else e0 - 1)"
  have pos: "0 < a" "0 < b" "0 < N" "0 < D"
    using n d by (simp_all add: a_def b_def N_def D_def)
  from ilog2_bounds [OF n] have "of_nat (2 ^ ilog2 n) \<le> (of_nat n :: rat)" "(of_nat n :: rat) < of_nat (2 ^ Suc (ilog2 n))"
    by (simp_all only: of_nat_le_iff of_nat_less_iff)
  then have aN: "a \<le> N" "N < 2 * a"
    by (simp_all add: a_def N_def)
  from ilog2_bounds [OF d] have "of_nat (2 ^ ilog2 d) \<le> (of_nat d :: rat)" "(of_nat d :: rat) < of_nat (2 ^ Suc (ilog2 d))"
    by (simp_all only: of_nat_le_iff of_nat_less_iff)
  then have bD: "b \<le> D" "D < 2 * b"
    by (simp_all add: b_def D_def)
  have p0: "(2::rat) powi e0 = a / b"
    by (simp add: e0_def power_int_diff a_def b_def)
  have up: "(2::rat) powi (k + 1) = 2 powi k * 2" for k
    by (simp add: power_int_add)
  have down: "(2::rat) powi (k - 1) = 2 powi k / 2" for k
    by (simp add: power_int_diff)
  have lower: "2 powi e \<le> N / D"
  proof (cases "D * 2 powi e0 \<le> N")
    case True
    then have "2 powi e0 \<le> N / D"
      using pos by (simp add: pos_le_divide_eq mult.commute)
    with True show ?thesis by (simp add: e_def)
  next
    case False
    have "a / (2 * b) \<le> N / D"
      using pos aN bD by (intro frac_le) simp_all
    with False show ?thesis by (simp add: e_def down p0)
  qed
  have upper: "N / D < 2 powi (e + 1)"
  proof (cases "D * 2 powi e0 \<le> N")
    case True
    have "N / D < (2 * a) / b"
      using pos aN bD by (intro frac_less) simp_all
    with True show ?thesis by (simp add: e_def up p0 mult.commute)
  next
    case False
    then have "N < D * 2 powi e0" by simp
    then have "N / D < 2 powi e0"
      using pos by (simp add: pos_divide_less_eq mult.commute)
    with False show ?thesis by (simp add: e_def)
  qed
  have "REAL_divide n d = of_int (round_half_even (N / (D * 2 powi (e - 52)))) * 2 powi (e - 52)"
    using n by (simp add: REAL_divide_def Let_def e_def e0_def N_def D_def)
  then have "REAL_divide n d = of_int (round_half_even ((N / D) / 2 powi (e - 52))) * 2 powi (e - 52)"
    by (simp add: divide_divide_eq_left)
  with lower upper show ?thesis
    unfolding N_def D_def by blast
qed

lemma binade_unique:
  assumes "2 powi e \<le> (x::rat)" "x < 2 powi (e + 1)" "2 powi e' \<le> x" "x < 2 powi (e' + 1)"
  shows "e = e'"
proof -
  have less: "k < k' + 1" if "2 powi k \<le> x" "x < 2 powi (k' + 1)" for k k'
  proof (rule ccontr)
    assume "\<not> k < k' + 1"
    then have "k' + 1 \<le> k" by simp
    then have "(2::rat) powi (k' + 1) \<le> 2 powi k"
      by (intro power_int_increasing) simp_all
    with that show False by linarith
  qed
  from less [OF assms(1) assms(4)] less [OF assms(3) assms(2)] show ?thesis by simp
qed

lemma REAL_divide_cong:
  assumes "0 < n" "0 < d" "0 < n'" "0 < d'"
    and eq: "(of_nat n / of_nat d :: rat) = of_nat n' / of_nat d'"
  shows "REAL_divide n d = REAL_divide n' d'"
proof -
  from REAL_divide_shape [OF assms(1,2)] obtain e where
    e: "2 powi e \<le> (of_nat n / of_nat d :: rat)" "(of_nat n / of_nat d :: rat) < 2 powi (e + 1)"
    and r: "REAL_divide n d = of_int (round_half_even ((of_nat n / of_nat d) / 2 powi (e - 52))) * 2 powi (e - 52)"
    by blast
  from REAL_divide_shape [OF assms(3,4)] obtain e' where
    e': "2 powi e' \<le> (of_nat n' / of_nat d' :: rat)" "(of_nat n' / of_nat d' :: rat) < 2 powi (e' + 1)"
    and r': "REAL_divide n' d' = of_int (round_half_even ((of_nat n' / of_nat d') / 2 powi (e' - 52))) * 2 powi (e' - 52)"
    by blast
  from e e' have "e = e'"
    unfolding eq by (rule binade_unique)
  with r r' eq show ?thesis by simp
qed

lemma REAL_divide_error:
  assumes d: "0 < d" and le: "n \<le> d"
  shows "\<bar>REAL_divide n d - of_nat n / of_nat d\<bar> \<le> 1 / 2 ^ 53"
proof (cases "n = 0")
  case True
  then show ?thesis by (simp add: REAL_divide_def)
next
  case False
  then have n: "0 < n" by simp
  define x :: rat where "x = of_nat n / of_nat d"
  from REAL_divide_shape [OF n d] obtain e where
    e: "2 powi e \<le> x" and r: "REAL_divide n d = of_int (round_half_even (x / 2 powi (e - 52))) * 2 powi (e - 52)"
    unfolding x_def by blast
  define ulp :: rat where "ulp = 2 powi (e - 52)"
  have ulp_pos: "0 < ulp" by (simp add: ulp_def)
  have "x \<le> 1"
    using le d by (simp add: x_def)
  have "e \<le> 0"
  proof (rule ccontr)
    assume "\<not> e \<le> 0"
    then have "1 \<le> e" by simp
    then have "(2::rat) powi 1 \<le> 2 powi e" by (intro power_int_increasing) simp_all
    with e \<open>x \<le> 1\<close> show False by simp
  qed
  then have "ulp \<le> 2 powi (- 52)"
    unfolding ulp_def by (intro power_int_increasing) simp_all
  then have ulp_le: "ulp \<le> 1 / 2 ^ 52"
    by (simp add: power_int_minus_divide)
  have "REAL_divide n d - x = (of_int (round_half_even (x / ulp)) - x / ulp) * ulp"
    using ulp_pos by (simp add: r ulp_def field_simps)
  then have "\<bar>REAL_divide n d - x\<bar> = \<bar>of_int (round_half_even (x / ulp)) - x / ulp\<bar> * ulp"
    using ulp_pos by (simp add: abs_mult)
  also have "\<dots> \<le> (1 / 2) * ulp"
    using round_half_even_error [of "x / ulp"] ulp_pos by (intro mult_right_mono) simp_all
  also have "\<dots> \<le> (1 / 2) * (1 / 2 ^ 52)"
    using ulp_le by (intro mult_left_mono) simp_all
  finally show ?thesis by (simp add: x_def)
qed

lemma ratio_gap:
  assumes lt: "n * d' < n' * d" and d: "0 < d" "d \<le> 2 ^ 25" and d': "0 < d'" "d' \<le> 2 ^ 25"
  shows "(1 / 2 ^ 50 :: rat) \<le> of_nat n' / of_nat d' - of_nat n / of_nat d"
proof -
  from lt have "n * d' + 1 \<le> n' * d" by simp
  then have "(of_nat (n * d' + 1) :: rat) \<le> of_nat (n' * d)" by (simp only: of_nat_le_iff)
  then have num: "(1::rat) \<le> of_nat n' * of_nat d - of_nat n * of_nat d'" by simp
  from d d' have "d * d' \<le> 2 ^ 25 * 2 ^ 25" by (intro mult_mono) simp_all
  then have "(of_nat (d * d') :: rat) \<le> of_nat (2 ^ 25 * 2 ^ 25)" by (simp only: of_nat_le_iff)
  then have den: "(of_nat d * of_nat d' :: rat) \<le> 2 ^ 50" by simp
  have den_pos: "(0::rat) < of_nat d * of_nat d'" using d d' by simp
  have "(1 / 2 ^ 50 :: rat) \<le> (of_nat n' * of_nat d - of_nat n * of_nat d') / (of_nat d * of_nat d')"
    using num den den_pos by (intro frac_le) simp_all
  also have "\<dots> = of_nat n' / of_nat d' - of_nat n / of_nat d"
    using d d' by (simp add: field_simps)
  finally show ?thesis .
qed

lemma REAL_divide_strict:
  assumes lt: "n * d' < n' * d" and d: "0 < d" "d \<le> 2 ^ 25" "n \<le> d" and d': "0 < d'" "d' \<le> 2 ^ 25" "n' \<le> d'"
  shows "REAL_divide n d < REAL_divide n' d'"
proof -
  have g: "(1 / 2 ^ 50 :: rat) \<le> of_nat n' / of_nat d' - of_nat n / of_nat d"
    using lt d(1,2) d'(1,2) by (rule ratio_gap)
  have e: "\<bar>REAL_divide n d - of_nat n / of_nat d\<bar> \<le> 1 / 2 ^ 53"
    using d(1,3) by (rule REAL_divide_error)
  have e': "\<bar>REAL_divide n' d' - of_nat n' / of_nat d'\<bar> \<le> 1 / 2 ^ 53"
    using d'(1,3) by (rule REAL_divide_error)
  have "(2 / 2 ^ 53 :: rat) < 1 / 2 ^ 50" by simp
  with g e e' show ?thesis by linarith
qed

lemma REAL_divide_equal:
  assumes eq: "n * d' = n' * d" and d: "0 < d" and d': "0 < d'"
  shows "REAL_divide n d = REAL_divide n' d'"
proof (cases "n = 0")
  case True
  with eq d have "n' = 0" by auto
  with True show ?thesis by (simp add: REAL_divide_def)
next
  case False
  with eq d' have n': "0 < n'" by (cases "n' = 0") auto
  from False have n: "0 < n" by simp
  from eq have "(of_nat (n * d') :: rat) = of_nat (n' * d)" by simp
  then have "(of_nat n / of_nat d :: rat) = of_nat n' / of_nat d'"
    using d d' by (simp add: field_simps)
  with n d n' d' show ?thesis by (intro REAL_divide_cong)
qed

lemma REAL_divide_less_iff:
  assumes d: "0 < d" "d \<le> 2 ^ 25" "n \<le> d" and d': "0 < d'" "d' \<le> 2 ^ 25" "n' \<le> d'"
  shows "REAL_divide n d < REAL_divide n' d' \<longleftrightarrow> n * d' < n' * d"
    and "REAL_divide n d = REAL_divide n' d' \<longleftrightarrow> n * d' = n' * d"
proof -
  consider "n * d' < n' * d" | "n * d' = n' * d" | "n' * d < n * d'" by linarith
  then have "(REAL_divide n d < REAL_divide n' d' \<longleftrightarrow> n * d' < n' * d) \<and>
     (REAL_divide n d = REAL_divide n' d' \<longleftrightarrow> n * d' = n' * d)"
  proof cases
    case 1
    from REAL_divide_strict [OF 1 d d'] 1 show ?thesis by simp
  next
    case 2
    from REAL_divide_equal [OF 2 d(1) d'(1)] 2 show ?thesis by simp
  next
    case 3
    from REAL_divide_strict [OF 3 d' d] 3 show ?thesis by simp
  qed
  then show "REAL_divide n d < REAL_divide n' d' \<longleftrightarrow> n * d' < n' * d"
    and "REAL_divide n d = REAL_divide n' d' \<longleftrightarrow> n * d' = n' * d" by simp_all
qed

lemma REAL_divide_half: "REAL_divide 1 2 = 1 / 2"
  by (simp add: REAL_divide_def ilog2.simps round_half_even_def Let_def power_int_minus)

section \<open>Properties of the selector library\<close>

lemma limit_1_None: "limit_1 rows = None \<longleftrightarrow> rows = []"
  by (induction rows) (auto split: option.splits)

lemma sorts_before_asym: "sorts_before a b \<Longrightarrow> \<not> sorts_before b a"
  by (auto simp: sorts_before_def)

lemma not_sorts_before_trans:
  "\<not> sorts_before a b \<Longrightarrow> \<not> sorts_before b c \<Longrightarrow> \<not> sorts_before a c"
  by (auto simp: sorts_before_def)

lemma limit_1_Some:
  "limit_1 rows = Some b \<Longrightarrow> b \<in> set rows \<and> (\<forall>r\<in>set rows. \<not> sorts_before r b)"
proof (induction rows arbitrary: b)
  case Nil
  then show ?case by simp
next
  case (Cons r rs)
  show ?case
  proof (cases "limit_1 rs")
    case None
    then have "rs = []" by (simp add: limit_1_None)
    with Cons.prems None show ?thesis by (auto simp: sorts_before_def)
  next
    case (Some c)
    from Cons.IH [OF Some] have c: "c \<in> set rs" "\<forall>x\<in>set rs. \<not> sorts_before x c" by auto
    show ?thesis
    proof (cases "sorts_before c r")
      case True
      with Some Cons.prems have "b = c" by simp
      with c True show ?thesis by (auto dest: sorts_before_asym)
    next
      case False
      with Some Cons.prems have "b = r" by simp
      with c False show ?thesis
        by (auto intro: not_sorts_before_trans simp: sorts_before_def)
    qed
  qed
qed

lemma getBestSelector_Some:
  assumes "getBestSelector domain actionName lib = Some s"
  shows "\<exists>row\<in>set lib. sl_selector row = s \<and> eligible domain actionName row \<and> 1 / 2 \<le> rate row \<and>
           (\<forall>r\<in>set lib. eligible domain actionName r \<longrightarrow>
              rate r < rate row \<or> (rate r = rate row \<and> attempts r \<le> attempts row))"
proof -
  let ?rows = "filter (eligible domain actionName) lib"
  from assms obtain row where row: "limit_1 ?rows = Some row"
    and r: "\<not> rate row < 1 / 2" and s: "sl_selector row = s"
    by (auto simp: getBestSelector_def split: option.splits if_splits)
  from limit_1_Some [OF row]
  have mem: "row \<in> set ?rows" and best: "\<forall>r\<in>set ?rows. \<not> sorts_before r row" by auto
  from best have "\<forall>r\<in>set lib. eligible domain actionName r \<longrightarrow>
      rate r < rate row \<or> (rate r = rate row \<and> attempts r \<le> attempts row)"
    by (auto simp: sorts_before_def)
  with mem r s show ?thesis by auto
qed

lemma getBestSelector_None:
  "getBestSelector domain actionName lib = None \<longleftrightarrow>
     (\<forall>r\<in>set lib. eligible domain actionName r \<longrightarrow> rate r < 1 / 2)"
proof (cases "limit_1 (filter (eligible domain actionName) lib)")
  case None
  then have "filter (eligible domain actionName) lib = []" by (simp add: limit_1_None)
  then have "\<forall>r\<in>set lib. \<not> eligible domain actionName r" by (simp add: filter_empty_conv)
  with None show ?thesis by (simp add: getBestSelector_def)
next
  case (Some row)
  from limit_1_Some [OF Some]
  have mem: "row \<in> set lib" "eligible domain actionName row"
    and best: "\<forall>r\<in>set lib. eligible domain actionName r \<longrightarrow> \<not> sorts_before r row" by auto
  show ?thesis
  proof (cases "rate row < 1 / 2")
    case True
    have "rate r < 1 / 2" if "r \<in> set lib" "eligible domain actionName r" for r
    proof -
      from best that have "rate r \<le> rate row" by (auto simp: sorts_before_def)
      with True show ?thesis by simp
    qed
    with Some True show ?thesis by (simp add: getBestSelector_def)
  next
    case False
    with Some mem show ?thesis by (auto simp: getBestSelector_def)
  qed
qed

lemma unique_selector_keys_same:
  "unique_selector_keys lib \<Longrightarrow> r \<in> set lib \<Longrightarrow> r' \<in> set lib \<Longrightarrow> sl_key r = sl_key r' \<Longrightarrow> r = r'"
  unfolding unique_selector_keys_def by (metis distinct_map inj_onD)

lemma rate_compare:
  assumes r: "0 < sl_success_count r + sl_fail_count r" "sl_success_count r + sl_fail_count r \<le> 2 ^ 25"
    and r': "0 < sl_success_count r' + sl_fail_count r'" "sl_success_count r' + sl_fail_count r' \<le> 2 ^ 25"
  shows "rate r < rate r' \<longleftrightarrow>
           sl_success_count r * (sl_success_count r' + sl_fail_count r')
             < sl_success_count r' * (sl_success_count r + sl_fail_count r)"
    and "rate r = rate r' \<longleftrightarrow>
           sl_success_count r * (sl_success_count r' + sl_fail_count r')
             = sl_success_count r' * (sl_success_count r + sl_fail_count r)"
proof -
  have small: "n < 2 ^ 53" if "n \<le> 2 ^ 25" for n :: nat
    using that by simp
  have x: "to_REAL (sl_success_count r) = sl_success_count r"
      "to_REAL (sl_success_count r + sl_fail_count r) = sl_success_count r + sl_fail_count r"
    using r(2) by (simp_all add: to_REAL_exact small)
  have x': "to_REAL (sl_success_count r') = sl_success_count r'"
      "to_REAL (sl_success_count r' + sl_fail_count r') = sl_success_count r' + sl_fail_count r'"
    using r'(2) by (simp_all add: to_REAL_exact small)
  show "rate r < rate r' \<longleftrightarrow>
           sl_success_count r * (sl_success_count r' + sl_fail_count r')
             < sl_success_count r' * (sl_success_count r + sl_fail_count r)"
    unfolding rate_def x x' using r r' by (intro REAL_divide_less_iff) simp_all
  show "rate r = rate r' \<longleftrightarrow>
           sl_success_count r * (sl_success_count r' + sl_fail_count r')
             = sl_success_count r' * (sl_success_count r + sl_fail_count r)"
    unfolding rate_def x x' using r r' by (intro REAL_divide_less_iff) simp_all
qed

lemma rate_below_half:
  assumes "0 < sl_success_count r + sl_fail_count r" "sl_success_count r + sl_fail_count r \<le> 2 ^ 25"
  shows "rate r < 1 / 2 \<longleftrightarrow> sl_success_count r < sl_fail_count r"
proof -
  have small: "sl_success_count r < 2 ^ 53" "sl_success_count r + sl_fail_count r < 2 ^ 53"
    using assms(2) by simp_all
  have "rate r < REAL_divide 1 2 \<longleftrightarrow>
      sl_success_count r * 2 < 1 * (sl_success_count r + sl_fail_count r)"
    unfolding rate_def to_REAL_exact [OF small(1)] to_REAL_exact [OF small(2)]
    using assms by (intro REAL_divide_less_iff) simp_all
  then have "rate r < 1 / 2 \<longleftrightarrow>
      sl_success_count r * 2 < 1 * (sl_success_count r + sl_fail_count r)"
    unfolding REAL_divide_half .
  also have "\<dots> \<longleftrightarrow> sl_success_count r < sl_fail_count r"
    by auto
  finally show ?thesis .
qed

lemma rate_below_half_small:
  assumes "0 < sl_success_count r + sl_fail_count r" "sl_success_count r + sl_fail_count r \<le> 2 ^ 25"
  shows "rate r * 2 < 1 \<longleftrightarrow> sl_success_count r < sl_fail_count r"
  using rate_below_half [OF assms] by simp

lemma three_outcomes:
  assumes "map fst os \<in> {[True, False, False], [False, True, False], [False, False, True]}"
  obtains t3 t4 t5 where "os = [(True, t3), (False, t4), (False, t5)] \<or> os = [(False, t3), (True, t4), (False, t5)] \<or> os = [(False, t3), (False, t4), (True, t5)]"
  using assms by (auto simp: map_eq_Cons_conv)

text \<open>
  Claim C1, as the code has it. Outcomes accumulate on the row of the key. From an empty
  library, two successes for a non-empty selector \<open>S\<close> under \<open>(D, A)\<close> make
  \<open>getBestSelector D A\<close> return \<open>S\<close>. One further success and two further failures, in any
  order, leave the row at three successes and two failures, a rate of 3/5, so \<open>S\<close> is still
  returned. One success and two failures recorded on an empty library (rate 1/3 over three
  attempts) make it return nothing.
\<close>

theorem selector_confidence_accumulates:
  assumes "S \<noteq> []"
    and "map fst os \<in> {[True, False, False], [False, True, False], [False, False, True]}"
  shows "getBestSelector D A (recordSelectorOutcome D A S True t2 (recordSelectorOutcome D A S True t1 [])) = Some S \<and>
     getBestSelector D A (fold (\<lambda>(success, now). recordSelectorOutcome D A S success now) os
        (recordSelectorOutcome D A S True t2 (recordSelectorOutcome D A S True t1 []))) = Some S \<and>
     getBestSelector D A (fold (\<lambda>(success, now). recordSelectorOutcome D A S success now) os []) = None"
proof -
  from assms(2) obtain t3 t4 t5 where "os = [(True, t3), (False, t4), (False, t5)] \<or> os = [(False, t3), (True, t4), (False, t5)] \<or> os = [(False, t3), (False, t4), (True, t5)]"
    by (rule three_outcomes)
  with assms(1) show ?thesis
    by (auto simp: recordSelectorOutcome_def getBestSelector_def eligible_def attempts_def rate_below_half_small sl_key_def)
qed

theorem selector_confidence_accumulates_witness:
  "getBestSelector ''shop.com'' ''add_to_cart''
     (recordSelectorOutcome ''shop.com'' ''add_to_cart'' ''#add-btn'' True 2
       (recordSelectorOutcome ''shop.com'' ''add_to_cart'' ''#add-btn'' True 1 [])) = Some ''#add-btn'' \<and>
   getBestSelector ''shop.com'' ''add_to_cart''
     (fold (\<lambda>(success, now). recordSelectorOutcome ''shop.com'' ''add_to_cart'' ''#add-btn'' success now)
        [(True, 3), (False, 4), (False, 5)]
       (recordSelectorOutcome ''shop.com'' ''add_to_cart'' ''#add-btn'' True 2
         (recordSelectorOutcome ''shop.com'' ''add_to_cart'' ''#add-btn'' True 1 []))) = Some ''#add-btn'' \<and>
   getBestSelector ''shop.com'' ''add_to_cart''
     (fold (\<lambda>(success, now). recordSelectorOutcome ''shop.com'' ''add_to_cart'' ''#add-btn'' success now)
        [(True, 3), (False, 4), (False, 5)] []) = None"
  using selector_confidence_accumulates [of "''#add-btn''" "[(True, 3), (False, 4), (False, 5)]" "''shop.com''" "''add_to_cart''" 2 1]
  by simp

text \<open>
  The claim as stated (nothing is returned after the three further outcomes) fails: the
  selector is still returned.
\<close>

theorem selector_confidence_counterexample:
  "getBestSelector ''shop.com'' ''add_to_cart''
     (recordSelectorOutcome ''shop.com'' ''add_to_cart'' ''#add-btn'' False 5
       (recordSelectorOutcome ''shop.com'' ''add_to_cart'' ''#add-btn'' False 4
         (recordSelectorOutcome ''shop.com'' ''add_to_cart'' ''#add-btn'' True 3
           (recordSelectorOutcome ''shop.com'' ''add_to_cart'' ''#add-btn'' True 2
             (recordSelectorOutcome ''shop.com'' ''add_to_cart'' ''#add-btn'' True 1 []))))) \<noteq> None"
  by (simp add: recordSelectorOutcome_def getBestSelector_def eligible_def attempts_def rate_below_half_small sl_key_def)

lemma getBestSelector_Some_columns:
  assumes "getBestSelector domain actionName lib = Some s"
  shows "\<exists>row\<in>set lib.
           sl_domain row = domain \<and> sl_action_name row = actionName \<and> sl_selector row = s \<and>
           2 \<le> sl_success_count row + sl_fail_count row \<and>
           1 / 2 \<le> REAL_divide (to_REAL (sl_success_count row))
                      (to_REAL (sl_success_count row + sl_fail_count row)) \<and>
           (\<forall>r\<in>set lib.
              sl_domain r = domain \<and> sl_action_name r = actionName \<and>
              2 \<le> sl_success_count r + sl_fail_count r \<longrightarrow>
              REAL_divide (to_REAL (sl_success_count r)) (to_REAL (sl_success_count r + sl_fail_count r))
                < REAL_divide (to_REAL (sl_success_count row))
                    (to_REAL (sl_success_count row + sl_fail_count row)) \<or>
              REAL_divide (to_REAL (sl_success_count r)) (to_REAL (sl_success_count r + sl_fail_count r))
                = REAL_divide (to_REAL (sl_success_count row))
                    (to_REAL (sl_success_count row + sl_fail_count row)) \<and>
              sl_success_count r + sl_fail_count r \<le> sl_success_count row + sl_fail_count row)"
  using getBestSelector_Some [OF assms]
  unfolding eligible_def attempts_def rate_def by blast

lemma getBestSelector_Some_exact:
  assumes best: "getBestSelector domain actionName lib = Some s"
    and small: "\<forall>r\<in>set lib. sl_success_count r + sl_fail_count r \<le> 2 ^ 25"
  shows "\<exists>row\<in>set lib.
           sl_domain row = domain \<and> sl_action_name row = actionName \<and> sl_selector row = s \<and>
           2 \<le> sl_success_count row + sl_fail_count row \<and>
           sl_fail_count row \<le> sl_success_count row \<and>
           (\<forall>r\<in>set lib.
              sl_domain r = domain \<and> sl_action_name r = actionName \<and>
              2 \<le> sl_success_count r + sl_fail_count r \<longrightarrow>
              sl_success_count r * (sl_success_count row + sl_fail_count row)
                < sl_success_count row * (sl_success_count r + sl_fail_count r) \<or>
              sl_success_count r * (sl_success_count row + sl_fail_count row)
                = sl_success_count row * (sl_success_count r + sl_fail_count r) \<and>
              sl_success_count r + sl_fail_count r \<le> sl_success_count row + sl_fail_count row)"
proof -
  from getBestSelector_Some [OF best] obtain row where row: "row \<in> set lib" "sl_selector row = s"
    "eligible domain actionName row" "1 / 2 \<le> rate row"
    and top: "\<forall>r\<in>set lib. eligible domain actionName r \<longrightarrow>
      rate r < rate row \<or> (rate r = rate row \<and> attempts r \<le> attempts row)"
    by blast
  from row(3) have key: "sl_domain row = domain" "sl_action_name row = actionName"
    and two: "2 \<le> sl_success_count row + sl_fail_count row"
    by (simp_all add: eligible_def attempts_def)
  from two have pos: "0 < sl_success_count row + sl_fail_count row" by linarith
  from small row(1) have bound: "sl_success_count row + sl_fail_count row \<le> 2 ^ 25" by blast
  from row(4) have "\<not> rate row < 1 / 2" by (rule leD)
  then have "\<not> sl_success_count row < sl_fail_count row"
    unfolding rate_below_half [OF pos bound] .
  then have half: "sl_fail_count row \<le> sl_success_count row" by (rule leI)
  have "sl_success_count r * (sl_success_count row + sl_fail_count row)
          < sl_success_count row * (sl_success_count r + sl_fail_count r) \<or>
        sl_success_count r * (sl_success_count row + sl_fail_count row)
          = sl_success_count row * (sl_success_count r + sl_fail_count r) \<and>
        sl_success_count r + sl_fail_count r \<le> sl_success_count row + sl_fail_count row"
    if r: "r \<in> set lib" and rk: "sl_domain r = domain \<and> sl_action_name r = actionName \<and>
      2 \<le> sl_success_count r + sl_fail_count r" for r
  proof -
    from rk have e: "eligible domain actionName r" by (simp add: eligible_def attempts_def)
    from rk have rpos: "0 < sl_success_count r + sl_fail_count r" by linarith
    from small r have rbound: "sl_success_count r + sl_fail_count r \<le> 2 ^ 25" by blast
    from top r e have "rate r < rate row \<or> (rate r = rate row \<and> attempts r \<le> attempts row)"
      by blast
    then show ?thesis
      unfolding rate_compare [OF rpos rbound pos bound] attempts_def .
  qed
  with row(1,2) key two half show ?thesis by blast
qed

lemma getBestSelector_None_columns:
  "getBestSelector domain actionName lib = None \<longleftrightarrow>
     (\<forall>r\<in>set lib.
        sl_domain r = domain \<and> sl_action_name r = actionName \<and>
        2 \<le> sl_success_count r + sl_fail_count r \<longrightarrow>
        REAL_divide (to_REAL (sl_success_count r)) (to_REAL (sl_success_count r + sl_fail_count r))
          < 1 / 2)"
  using getBestSelector_None [of domain actionName lib]
  unfolding eligible_def attempts_def rate_def .

lemma getBestSelector_None_exact:
  assumes small: "\<forall>r\<in>set lib. sl_success_count r + sl_fail_count r \<le> 2 ^ 25"
  shows "getBestSelector domain actionName lib = None \<longleftrightarrow>
     (\<forall>r\<in>set lib.
        sl_domain r = domain \<and> sl_action_name r = actionName \<and>
        2 \<le> sl_success_count r + sl_fail_count r \<longrightarrow>
        sl_success_count r < sl_fail_count r)"
proof -
  have "rate r < 1 / 2 \<longleftrightarrow> sl_success_count r < sl_fail_count r"
    if "r \<in> set lib" "eligible domain actionName r" for r
  proof -
    from that(2) have "2 \<le> sl_success_count r + sl_fail_count r"
      by (simp add: eligible_def attempts_def)
    then have "0 < sl_success_count r + sl_fail_count r" by linarith
    moreover from small that(1) have "sl_success_count r + sl_fail_count r \<le> 2 ^ 25" by blast
    ultimately show ?thesis by (rule rate_below_half)
  qed
  then have "(\<forall>r\<in>set lib. eligible domain actionName r \<longrightarrow> rate r < 1 / 2) \<longleftrightarrow>
      (\<forall>r\<in>set lib. eligible domain actionName r \<longrightarrow> sl_success_count r < sl_fail_count r)"
    by blast
  then show ?thesis
    unfolding getBestSelector_None eligible_def attempts_def .
qed

lemma getBestSelector_single_success:
  assumes distinct: "distinct (map (\<lambda>r. (sl_domain r, sl_action_name r, sl_selector r)) lib)"
    and r: "r \<in> set lib" "sl_domain r = domain" "sl_action_name r = actionName" "sl_selector r = s"
      "sl_success_count r = 1" "sl_fail_count r = 0"
  shows "getBestSelector domain actionName lib \<noteq> Some s"
proof
  assume "getBestSelector domain actionName lib = Some s"
  from getBestSelector_Some [OF this] obtain row where row: "row \<in> set lib"
    "sl_selector row = s" "eligible domain actionName row" by blast
  then have "sl_key row = sl_key r" using r by (simp add: sl_key_def eligible_def)
  moreover from distinct have "unique_selector_keys lib"
    by (simp add: unique_selector_keys_def sl_key_def [abs_def])
  ultimately have "row = r" using row(1) r(1) by (blast intro: unique_selector_keys_same)
  with row r show False by (simp add: eligible_def attempts_def)
qed

text \<open>
  Claim C2, as the code has it. \<open>getBestSelector\<close> returns a selector only if a row of the
  domain and the action with \<open>success_count + fail_count \<ge> 2\<close> carries it, the quotient that
  SQLite computes for that row in double precision is at least 1/2, and every other such row
  has a smaller quotient, or the same quotient and no more attempts; it returns nothing
  exactly when no such row's quotient reaches 1/2. When no row of the table has more than
  \<open>2 ^ 25\<close> attempts the doubles compare as the exact ratios
  \<open>success_count / (success_count + fail_count)\<close> do, written here without division: the
  returned row has no more failures than successes and the highest exact ratio, ties broken
  by attempts, and nothing is returned exactly when every such row has more failures than
  successes. Under the table's uniqueness constraint a selector whose row has one success and
  no failure is never returned.
\<close>

theorem getBestSelector_sound:
  "(getBestSelector domain actionName lib = Some s \<longrightarrow>
      (\<exists>row\<in>set lib.
         sl_domain row = domain \<and> sl_action_name row = actionName \<and> sl_selector row = s \<and>
         2 \<le> sl_success_count row + sl_fail_count row \<and>
         1 / 2 \<le> REAL_divide (to_REAL (sl_success_count row))
                    (to_REAL (sl_success_count row + sl_fail_count row)) \<and>
         (\<forall>r\<in>set lib.
            sl_domain r = domain \<and> sl_action_name r = actionName \<and>
            2 \<le> sl_success_count r + sl_fail_count r \<longrightarrow>
            REAL_divide (to_REAL (sl_success_count r)) (to_REAL (sl_success_count r + sl_fail_count r))
              < REAL_divide (to_REAL (sl_success_count row))
                  (to_REAL (sl_success_count row + sl_fail_count row)) \<or>
            REAL_divide (to_REAL (sl_success_count r)) (to_REAL (sl_success_count r + sl_fail_count r))
              = REAL_divide (to_REAL (sl_success_count row))
                  (to_REAL (sl_success_count row + sl_fail_count row)) \<and>
            sl_success_count r + sl_fail_count r \<le> sl_success_count row + sl_fail_count row))) \<and>
   (getBestSelector domain actionName lib = None \<longleftrightarrow>
      (\<forall>r\<in>set lib.
         sl_domain r = domain \<and> sl_action_name r = actionName \<and>
         2 \<le> sl_success_count r + sl_fail_count r \<longrightarrow>
         REAL_divide (to_REAL (sl_success_count r)) (to_REAL (sl_success_count r + sl_fail_count r))
           < 1 / 2)) \<and>
   ((\<forall>r\<in>set lib. sl_success_count r + sl_fail_count r \<le> 2 ^ 25) \<longrightarrow>
      (getBestSelector domain actionName lib = Some s \<longrightarrow>
         (\<exists>row\<in>set lib.
            sl_domain row = domain \<and> sl_action_name row = actionName \<and> sl_selector row = s \<and>
            2 \<le> sl_success_count row + sl_fail_count row \<and>
            sl_fail_count row \<le> sl_success_count row \<and>
            (\<forall>r\<in>set lib.
               sl_domain r = domain \<and> sl_action_name r = actionName \<and>
               2 \<le> sl_success_count r + sl_fail_count r \<longrightarrow>
               sl_success_count r * (sl_success_count row + sl_fail_count row)
                 < sl_success_count row * (sl_success_count r + sl_fail_count r) \<or>
               sl_success_count r * (sl_success_count row + sl_fail_count row)
                 = sl_success_count row * (sl_success_count r + sl_fail_count r) \<and>
               sl_success_count r + sl_fail_count r \<le> sl_success_count row + sl_fail_count row))) \<and>
      (getBestSelector domain actionName lib = None \<longleftrightarrow>
         (\<forall>r\<in>set lib.
            sl_domain r = domain \<and> sl_action_name r = actionName \<and>
            2 \<le> sl_success_count r + sl_fail_count r \<longrightarrow>
            sl_success_count r < sl_fail_count r))) \<and>
   (distinct (map (\<lambda>r. (sl_domain r, sl_action_name r, sl_selector r)) lib) \<longrightarrow>
      (\<forall>r\<in>set lib.
         sl_domain r = domain \<and> sl_action_name r = actionName \<and> sl_selector r = s \<and>
         sl_success_count r = 1 \<and> sl_fail_count r = 0 \<longrightarrow>
         getBestSelector domain actionName lib \<noteq> Some s))"
proof (intro conjI impI ballI)
  assume "getBestSelector domain actionName lib = Some s"
  then show "\<exists>row\<in>set lib.
         sl_domain row = domain \<and> sl_action_name row = actionName \<and> sl_selector row = s \<and>
         2 \<le> sl_success_count row + sl_fail_count row \<and>
         1 / 2 \<le> REAL_divide (to_REAL (sl_success_count row))
                    (to_REAL (sl_success_count row + sl_fail_count row)) \<and>
         (\<forall>r\<in>set lib.
            sl_domain r = domain \<and> sl_action_name r = actionName \<and>
            2 \<le> sl_success_count r + sl_fail_count r \<longrightarrow>
            REAL_divide (to_REAL (sl_success_count r)) (to_REAL (sl_success_count r + sl_fail_count r))
              < REAL_divide (to_REAL (sl_success_count row))
                  (to_REAL (sl_success_count row + sl_fail_count row)) \<or>
            REAL_divide (to_REAL (sl_success_count r)) (to_REAL (sl_success_count r + sl_fail_count r))
              = REAL_divide (to_REAL (sl_success_count row))
                  (to_REAL (sl_success_count row + sl_fail_count row)) \<and>
            sl_success_count r + sl_fail_count r \<le> sl_success_count row + sl_fail_count row)"
    by (rule getBestSelector_Some_columns)
next
  show "getBestSelector domain actionName lib = None \<longleftrightarrow>
      (\<forall>r\<in>set lib.
         sl_domain r = domain \<and> sl_action_name r = actionName \<and>
         2 \<le> sl_success_count r + sl_fail_count r \<longrightarrow>
         REAL_divide (to_REAL (sl_success_count r)) (to_REAL (sl_success_count r + sl_fail_count r))
           < 1 / 2)"
    by (rule getBestSelector_None_columns)
next
  assume small: "\<forall>r\<in>set lib. sl_success_count r + sl_fail_count r \<le> 2 ^ 25"
    and "getBestSelector domain actionName lib = Some s"
  then show "\<exists>row\<in>set lib.
            sl_domain row = domain \<and> sl_action_name row = actionName \<and> sl_selector row = s \<and>
            2 \<le> sl_success_count row + sl_fail_count row \<and>
            sl_fail_count row \<le> sl_success_count row \<and>
            (\<forall>r\<in>set lib.
               sl_domain r = domain \<and> sl_action_name r = actionName \<and>
               2 \<le> sl_success_count r + sl_fail_count r \<longrightarrow>
               sl_success_count r * (sl_success_count row + sl_fail_count row)
                 < sl_success_count row * (sl_success_count r + sl_fail_count r) \<or>
               sl_success_count r * (sl_success_count row + sl_fail_count row)
                 = sl_success_count row * (sl_success_count r + sl_fail_count r) \<and>
               sl_success_count r + sl_fail_count r \<le> sl_success_count row + sl_fail_count row)"
    by (intro getBestSelector_Some_exact)
next
  assume small: "\<forall>r\<in>set lib. sl_success_count r + sl_fail_count r \<le> 2 ^ 25"
  then show "getBestSelector domain actionName lib = None \<longleftrightarrow>
         (\<forall>r\<in>set lib.
            sl_domain r = domain \<and> sl_action_name r = actionName \<and>
            2 \<le> sl_success_count r + sl_fail_count r \<longrightarrow>
            sl_success_count r < sl_fail_count r)"
    by (rule getBestSelector_None_exact)
next
  fix r
  assume "distinct (map (\<lambda>r. (sl_domain r, sl_action_name r, sl_selector r)) lib)"
    and "r \<in> set lib"
    and "sl_domain r = domain \<and> sl_action_name r = actionName \<and> sl_selector r = s \<and>
         sl_success_count r = 1 \<and> sl_fail_count r = 0"
  then show "getBestSelector domain actionName lib \<noteq> Some s"
    by (intro getBestSelector_single_success [of lib r]) simp_all
qed

lemma floor_numeral_quotient:
  "\<lfloor>(numeral a :: rat) / numeral b\<rfloor> = numeral a div numeral b"
  using floor_divide_of_int_eq [of "numeral a" "numeral b", where ?'a = rat] by simp

lemma shop_lib_rows:
  "shop_lib = [\<lparr>sl_domain = ''shop.com'', sl_action_name = ''add_to_cart'', sl_selector = ''#add-btn'', sl_success_count = 2, sl_fail_count = 0, sl_last_used = 2\<rparr>,
    \<lparr>sl_domain = ''shop.com'', sl_action_name = ''add_to_cart'', sl_selector = ''.old-btn'', sl_success_count = 0, sl_fail_count = 1, sl_last_used = 3\<rparr>,
    \<lparr>sl_domain = ''shop.com'', sl_action_name = ''add_to_cart'', sl_selector = ''.new-btn'', sl_success_count = 1, sl_fail_count = 0, sl_last_used = 4\<rparr>]"
  by (simp add: shop_lib_def recordSelectorOutcome_def sl_key_def)

lemma ranked_lib_best:
  "getBestSelector ''shop.com'' ''add_to_cart'' ranked_lib = Some ''#b''"
  by (simp add: ranked_lib_def getBestSelector_def eligible_def attempts_def sorts_before_def
      rate_compare rate_below_half_small)

theorem getBestSelector_sound_witness:
  "getBestSelector ''shop.com'' ''add_to_cart'' ranked_lib = Some ''#b'' \<and>
   \<not> (\<exists>r\<in>set ranked_lib. 2 ^ 25 < sl_success_count r + sl_fail_count r) \<and>
   distinct (map (\<lambda>r. (sl_domain r, sl_action_name r, sl_selector r)) ranked_lib) \<and>
   (\<exists>row\<in>set ranked_lib.
      sl_domain row = ''shop.com'' \<and> sl_action_name row = ''add_to_cart'' \<and> sl_selector row = ''#b'' \<and>
      2 \<le> sl_success_count row + sl_fail_count row \<and>
      1 / 2 \<le> REAL_divide (to_REAL (sl_success_count row))
                 (to_REAL (sl_success_count row + sl_fail_count row)) \<and>
      (\<forall>r\<in>set ranked_lib.
         sl_domain r = ''shop.com'' \<and> sl_action_name r = ''add_to_cart'' \<and>
         2 \<le> sl_success_count r + sl_fail_count r \<longrightarrow>
         REAL_divide (to_REAL (sl_success_count r)) (to_REAL (sl_success_count r + sl_fail_count r))
           < REAL_divide (to_REAL (sl_success_count row))
               (to_REAL (sl_success_count row + sl_fail_count row)) \<or>
         REAL_divide (to_REAL (sl_success_count r)) (to_REAL (sl_success_count r + sl_fail_count r))
           = REAL_divide (to_REAL (sl_success_count row))
               (to_REAL (sl_success_count row + sl_fail_count row)) \<and>
         sl_success_count r + sl_fail_count r \<le> sl_success_count row + sl_fail_count row)) \<and>
   (\<exists>row\<in>set ranked_lib.
      sl_domain row = ''shop.com'' \<and> sl_action_name row = ''add_to_cart'' \<and> sl_selector row = ''#b'' \<and>
      2 \<le> sl_success_count row + sl_fail_count row \<and>
      sl_fail_count row \<le> sl_success_count row \<and>
      (\<forall>r\<in>set ranked_lib.
         sl_domain r = ''shop.com'' \<and> sl_action_name r = ''add_to_cart'' \<and>
         2 \<le> sl_success_count r + sl_fail_count r \<longrightarrow>
         sl_success_count r * (sl_success_count row + sl_fail_count row)
           < sl_success_count row * (sl_success_count r + sl_fail_count r) \<or>
         sl_success_count r * (sl_success_count row + sl_fail_count row)
           = sl_success_count row * (sl_success_count r + sl_fail_count r) \<and>
         sl_success_count r + sl_fail_count r \<le> sl_success_count row + sl_fail_count row)) \<and>
   (\<exists>r\<in>set ranked_lib.
      sl_domain r = ''shop.com'' \<and> sl_action_name r = ''add_to_cart'' \<and> sl_selector r = ''#a'' \<and>
      sl_success_count r = 2 \<and> sl_fail_count r = 0) \<and>
   (\<exists>r\<in>set ranked_lib.
      sl_domain r = ''shop.com'' \<and> sl_action_name r = ''add_to_cart'' \<and> sl_selector r = ''#b'' \<and>
      sl_success_count r = 3 \<and> sl_fail_count r = 0) \<and>
   (\<exists>r\<in>set ranked_lib.
      sl_domain r = ''shop.com'' \<and> sl_action_name r = ''add_to_cart'' \<and> sl_selector r = ''#c'' \<and>
      sl_success_count r = 5 \<and> sl_fail_count r = 1) \<and>
   (\<exists>r\<in>set ranked_lib.
      sl_domain r = ''shop.com'' \<and> sl_action_name r = ''add_to_cart'' \<and> sl_selector r = ''#d'' \<and>
      sl_success_count r = 1 \<and> sl_fail_count r = 0) \<and>
   getBestSelector ''shop.com'' ''add_to_cart'' ranked_lib \<noteq> Some ''#d'' \<and>
   (\<exists>r\<in>set ranked_lib.
      sl_domain r = ''shop.com'' \<and> sl_action_name r = ''checkout'' \<and>
      2 \<le> sl_success_count r + sl_fail_count r) \<and>
   getBestSelector ''shop.com'' ''checkout'' ranked_lib = None"
proof -
  note best = ranked_lib_best
  have small: "\<forall>r\<in>set ranked_lib. sl_success_count r + sl_fail_count r \<le> 2 ^ 25"
    by (simp add: ranked_lib_def)
  have small': "\<not> (\<exists>r\<in>set ranked_lib. 2 ^ 25 < sl_success_count r + sl_fail_count r)"
    by (simp add: ranked_lib_def)
  have keys: "distinct (map (\<lambda>r. (sl_domain r, sl_action_name r, sl_selector r)) ranked_lib)"
    by (simp add: ranked_lib_def)
  have a: "\<exists>r\<in>set ranked_lib.
      sl_domain r = ''shop.com'' \<and> sl_action_name r = ''add_to_cart'' \<and> sl_selector r = ''#a'' \<and>
      sl_success_count r = 2 \<and> sl_fail_count r = 0"
    by (simp add: ranked_lib_def)
  have b: "\<exists>r\<in>set ranked_lib.
      sl_domain r = ''shop.com'' \<and> sl_action_name r = ''add_to_cart'' \<and> sl_selector r = ''#b'' \<and>
      sl_success_count r = 3 \<and> sl_fail_count r = 0"
    by (simp add: ranked_lib_def)
  have c: "\<exists>r\<in>set ranked_lib.
      sl_domain r = ''shop.com'' \<and> sl_action_name r = ''add_to_cart'' \<and> sl_selector r = ''#c'' \<and>
      sl_success_count r = 5 \<and> sl_fail_count r = 1"
    by (simp add: ranked_lib_def)
  have d: "\<exists>r\<in>set ranked_lib.
      sl_domain r = ''shop.com'' \<and> sl_action_name r = ''add_to_cart'' \<and> sl_selector r = ''#d'' \<and>
      sl_success_count r = 1 \<and> sl_fail_count r = 0"
    by (simp add: ranked_lib_def)
  have d_row: "\<lparr>sl_domain = ''shop.com'', sl_action_name = ''add_to_cart'', sl_selector = ''#d'',
      sl_success_count = 1, sl_fail_count = 0, sl_last_used = 7\<rparr> \<in> set ranked_lib"
    by (simp add: ranked_lib_def)
  have x: "\<exists>r\<in>set ranked_lib.
      sl_domain r = ''shop.com'' \<and> sl_action_name r = ''checkout'' \<and>
      2 \<le> sl_success_count r + sl_fail_count r"
    by (simp add: ranked_lib_def)
  have low: "\<forall>r\<in>set ranked_lib.
      sl_domain r = ''shop.com'' \<and> sl_action_name r = ''checkout'' \<and>
      2 \<le> sl_success_count r + sl_fail_count r \<longrightarrow>
      sl_success_count r < sl_fail_count r"
    by (simp add: ranked_lib_def)
  note sound = getBestSelector_sound [of "''shop.com''" "''add_to_cart''" ranked_lib "''#b''"]
  note float = sound [THEN conjunct1, THEN mp, OF best]
  note exact = sound [THEN conjunct2, THEN conjunct2, THEN conjunct1, THEN mp, OF small,
      THEN conjunct1, THEN mp, OF best]
  note single = getBestSelector_sound [of "''shop.com''" "''add_to_cart''" ranked_lib "''#d''",
      THEN conjunct2, THEN conjunct2, THEN conjunct2, THEN mp, OF keys, THEN bspec, OF d_row,
      THEN mp]
  have no_d: "getBestSelector ''shop.com'' ''add_to_cart'' ranked_lib \<noteq> Some ''#d''"
    by (rule single) simp
  note none = getBestSelector_sound [of "''shop.com''" "''checkout''" ranked_lib "''#x''",
      THEN conjunct2, THEN conjunct2, THEN conjunct1, THEN mp, OF small,
      THEN conjunct2, THEN iffD2, OF low]
  show ?thesis
    by (intro conjI; fact best small' keys float exact a b c d no_d x none)
qed

text \<open>
  Claim C2 as the specification words it, with the exact ratio
  \<open>success_count / (success_count + fail_count)\<close>, fails on a table with long-lived rows.
  \<^verbatim>\<open>#often\<close> has the exact ratio \<open>(2 ^ 28 - 2) / 2 ^ 28\<close> and \<^verbatim>\<open>#seldom\<close> the higher exact
  ratio \<open>2 ^ 27 / (2 ^ 27 + 1)\<close>; both have at least two attempts. In double precision the
  two quotients are the same number, the order falls to the attempts, and the query returns
  \<^verbatim>\<open>#often\<close>, which does not have the highest ratio.
\<close>

theorem getBestSelector_rounding_counterexample:
  "getBestSelector ''shop.com'' ''add_to_cart'' rounding_lib = Some ''#often'' \<and>
   distinct (map (\<lambda>r. (sl_domain r, sl_action_name r, sl_selector r)) rounding_lib) \<and>
   (\<exists>often\<in>set rounding_lib. \<exists>seldom\<in>set rounding_lib.
      sl_domain often = ''shop.com'' \<and> sl_action_name often = ''add_to_cart'' \<and>
      sl_selector often = ''#often'' \<and>
      sl_domain seldom = ''shop.com'' \<and> sl_action_name seldom = ''add_to_cart'' \<and>
      sl_selector seldom = ''#seldom'' \<and>
      2 \<le> sl_success_count seldom + sl_fail_count seldom \<and>
      (of_nat (sl_success_count often) :: rat) / of_nat (sl_success_count often + sl_fail_count often)
        < of_nat (sl_success_count seldom) / of_nat (sl_success_count seldom + sl_fail_count seldom))"
proof -
  have same: "REAL_divide 268435454 268435456 = REAL_divide 134217728 134217729"
    by (simp add: REAL_divide_def ilog2.simps round_half_even_def Let_def power_int_minus
        floor_numeral_quotient)
  have half: "\<not> REAL_divide 134217728 134217729 * 2 < 1"
    by (simp add: REAL_divide_def ilog2.simps round_half_even_def Let_def power_int_minus
        floor_numeral_quotient)
  have exact: "to_REAL 268435454 = 268435454" "to_REAL 268435456 = 268435456"
    "to_REAL 134217728 = 134217728" "to_REAL 134217729 = 134217729"
    by (simp_all add: to_REAL_exact)
  have "getBestSelector ''shop.com'' ''add_to_cart'' rounding_lib = Some ''#often''"
    by (simp add: rounding_lib_def getBestSelector_def eligible_def attempts_def sorts_before_def
        rate_def exact same half)
  then show ?thesis
    by (simp add: rounding_lib_def)
qed

section \<open>Properties of URL normalisation\<close>

lemmas URL_parse_eval =
  URL_parse_def split_scheme_def scheme_char_def ascii_lower_def ascii_lower_letters_def
  ascii_upper_letters_def ascii_digits_def plain_host_def plain_path_def plain_path_char_def
  printable_no_space_def query_or_fragment_def

lemma split_scheme_colon:
  assumes "split_scheme s = Some (scheme, rest)"
  shows "CHR '':'' \<in> set (takeWhile (\<lambda>c. c \<noteq> CHR ''/'') s)"
proof -
  define pre where "pre = takeWhile scheme_char s"
  from assms have d: "dropWhile scheme_char s = CHR '':'' # rest"
    by (auto simp: split_scheme_def split: list.splits if_splits)
  have "takeWhile scheme_char s @ dropWhile scheme_char s = s"
    by (rule takeWhile_dropWhile_id)
  with d have s: "s = pre @ CHR '':'' # rest"
    by (simp add: pre_def)
  have ns: "\<not> scheme_char (CHR ''/'')"
    by (simp add: scheme_char_def ascii_lower_letters_def ascii_upper_letters_def ascii_digits_def)
  have "\<forall>c \<in> set pre. c \<noteq> CHR ''/''"
    unfolding pre_def using ns by (auto dest: set_takeWhileD)
  then have "takeWhile (\<lambda>c. c \<noteq> CHR ''/'') (pre @ CHR '':'' # rest)
      = pre @ CHR '':'' # takeWhile (\<lambda>c. c \<noteq> CHR ''/'') rest"
    by (simp add: takeWhile_append2)
  then show ?thesis
    unfolding s by simp
qed

lemma URL_parse_scheme:
  "URL_parse s = Some parsed \<Longrightarrow> CHR '':'' \<in> set (takeWhile (\<lambda>c. c \<noteq> CHR ''/'') s)"
  by (auto simp: URL_parse_def split: option.splits dest: split_scheme_colon)

lemma strip_trailing_slash_rooted:
  assumes "take 1 p = ''/''"
  shows "(let stripped = strip_trailing_slash p in if stripped = [] then ''/'' else stripped) = CHR ''/'' # tl (let stripped = strip_trailing_slash p in if stripped = [] then ''/'' else stripped)"
proof -
  from assms obtain q where p: "p = CHR ''/'' # q" by (cases p) auto
  show ?thesis by (cases q) (auto simp: p strip_trailing_slash_def Let_def)
qed

lemma no_colon_before_slash:
  assumes "CHR '':'' \<notin> set h"
  shows "CHR '':'' \<notin> set (takeWhile (\<lambda>c. c \<noteq> CHR ''/'') (h @ CHR ''/'' # q))"
proof -
  have "set (takeWhile (\<lambda>c. c \<noteq> CHR ''/'') (h @ CHR ''/'' # q)) \<subseteq> set h"
    by (induction h) auto
  with assms show ?thesis by blast
qed

text \<open>
  Claim C7, as the code has it. Let the constructor accept only strings with a colon before
  the first slash, as the platform's does (without a base URL it fails unless the input
  starts with a scheme). Then normalisation is idempotent at every input that does not parse,
  and at every input whose host name holds no colon and whose path name starts with a slash
  (the http and https URLs of named hosts): the normal form, host name followed by a rooted
  path, has no scheme and is returned as it is. The query is dropped:
  \<^verbatim>\<open>https://x.com/a/?sid=123\<close> and \<^verbatim>\<open>https://x.com/a\<close> have the same normal form.
\<close>

theorem normalizeUrl_idempotent_hierarchical:
  assumes scheme: "\<forall>s parsed. URL s = Some parsed \<longrightarrow> CHR '':'' \<in> set (takeWhile (\<lambda>c. c \<noteq> CHR ''/'') s)"
    and shape: "case URL u of None \<Rightarrow> True
                | Some parsed \<Rightarrow> CHR '':'' \<notin> set (hostname parsed) \<and> take 1 (pathname parsed) = ''/''"
  shows "normalizeUrl URL (normalizeUrl URL u) = normalizeUrl URL u \<and>
         normalizeUrl URL_parse ''https://x.com/a/?sid=123'' = normalizeUrl URL_parse ''https://x.com/a''"
proof
  show "normalizeUrl URL (normalizeUrl URL u) = normalizeUrl URL u"
  proof (cases "URL u")
    case None
    then show ?thesis by (simp add: normalizeUrl_def)
  next
    case (Some parsed)
    with shape have h: "CHR '':'' \<notin> set (hostname parsed)" and p: "take 1 (pathname parsed) = ''/''"
      by auto
    define path where "path = (let stripped = strip_trailing_slash (pathname parsed) in if stripped = [] then ''/'' else stripped)"
    have out: "normalizeUrl URL u = hostname parsed @ path"
      using Some by (simp add: normalizeUrl_def path_def Let_def)
    from strip_trailing_slash_rooted [OF p] have "path = CHR ''/'' # tl path"
      by (simp add: path_def)
    then have "CHR '':'' \<notin> set (takeWhile (\<lambda>c. c \<noteq> CHR ''/'') (hostname parsed @ path))"
      using no_colon_before_slash [OF h, of "tl path"] by simp
    with scheme have "URL (hostname parsed @ path) = None"
      by (cases "URL (hostname parsed @ path)") auto
    with out show ?thesis by (simp add: normalizeUrl_def)
  qed
next
  show "normalizeUrl URL_parse ''https://x.com/a/?sid=123'' = normalizeUrl URL_parse ''https://x.com/a''"
    by (simp add: normalizeUrl_def strip_trailing_slash_def URL_parse_eval)
qed

theorem normalizeUrl_idempotent_hierarchical_witness:
  "\<not> (\<exists>s parsed. URL_parse s = Some parsed \<and> CHR '':'' \<notin> set (takeWhile (\<lambda>c. c \<noteq> CHR ''/'') s)) \<and>
   URL_parse ''https://x.com/a/?sid=123'' = Some \<lparr>hostname = ''x.com'', pathname = ''/a/''\<rparr> \<and>
   normalizeUrl URL_parse ''https://x.com/a/?sid=123'' = ''x.com/a'' \<and>
   normalizeUrl URL_parse (normalizeUrl URL_parse ''https://x.com/a/?sid=123'') = normalizeUrl URL_parse ''https://x.com/a/?sid=123'' \<and>
   normalizeUrl URL_parse ''https://x.com/a/?sid=123'' = normalizeUrl URL_parse ''https://x.com/a''"
proof -
  have f: "\<forall>s parsed. URL_parse s = Some parsed \<longrightarrow> CHR '':'' \<in> set (takeWhile (\<lambda>c. c \<noteq> CHR ''/'') s)"
    by (blast intro: URL_parse_scheme)
  have p: "URL_parse ''https://x.com/a/?sid=123'' = Some \<lparr>hostname = ''x.com'', pathname = ''/a/''\<rparr>"
    by (simp add: URL_parse_eval)
  have n: "normalizeUrl URL_parse ''https://x.com/a/?sid=123'' = ''x.com/a''"
    by (simp add: normalizeUrl_def p strip_trailing_slash_def)
  have s: "case URL_parse ''https://x.com/a/?sid=123'' of None \<Rightarrow> True
                | Some parsed \<Rightarrow> CHR '':'' \<notin> set (hostname parsed) \<and> take 1 (pathname parsed) = ''/''"
    by (simp add: p)
  from f have g: "\<not> (\<exists>s parsed. URL_parse s = Some parsed \<and> CHR '':'' \<notin> set (takeWhile (\<lambda>c. c \<noteq> CHR ''/'') s))"
    by blast
  from normalizeUrl_idempotent_hierarchical [of URL_parse "''https://x.com/a/?sid=123''", OF f s] g p n
  show ?thesis by simp
qed

text \<open>
  Idempotence fails for a URL with an opaque path: the normal form of
  \<^verbatim>\<open>blob:https://x.com/a\<close> is \<^verbatim>\<open>https://x.com/a\<close>, which parses again and normalises to
  \<^verbatim>\<open>x.com/a\<close>.
\<close>

theorem normalizeUrl_idempotent_counterexample:
  "normalizeUrl URL_parse ''blob:https://x.com/a'' = ''https://x.com/a'' \<and>
   normalizeUrl URL_parse (normalizeUrl URL_parse ''blob:https://x.com/a'') = ''x.com/a''"
  by (simp add: normalizeUrl_def strip_trailing_slash_def URL_parse_eval)

text \<open>
  Claim C10. Both functions return a string on every input: the exception of the constructor
  is the \<open>None\<close> branch, and nothing else in their bodies can throw. For an input that the
  constructor rejects, \<open>normalizeUrl\<close>, the store's \<open>getDomain\<close> and the executor's
  \<open>getDomain\<close> return the input itself, so \<open>cacheModel\<close> writes the row with the input as
  pattern and as domain, and \<open>getCachedModel\<close> finds it under the input.
\<close>

theorem malformed_url_is_its_own_key:
  assumes "URL u = None"
  shows "normalizeUrl URL u = u \<and> getDomain URL u = u \<and> TaskExecutor_getDomain URL u = u \<and>
         cacheModel URL now u m cache = upsert_cache u u m now cache \<and>
         getCachedModel URL now u [\<lparr>pc_url_pattern = u, pc_domain = u, pc_model_json = m, pc_hit_count = 0, pc_last_updated = now\<rparr>]
           = (Some m, [\<lparr>pc_url_pattern = u, pc_domain = u, pc_model_json = m, pc_hit_count = 1, pc_last_updated = now\<rparr>])"
  using assms
  by (simp add: normalizeUrl_def getDomain_def TaskExecutor_getDomain_def cacheModel_def getCachedModel_def CACHE_TTL_MS_def)

theorem malformed_url_is_its_own_key_witness:
  "URL_parse ''not a url'' = None \<and> normalizeUrl URL_parse ''not a url'' = ''not a url'' \<and>
   getDomain URL_parse ''not a url'' = ''not a url'' \<and> TaskExecutor_getDomain URL_parse ''not a url'' = ''not a url''"
proof -
  have n: "URL_parse ''not a url'' = None" by (simp add: URL_parse_eval)
  from malformed_url_is_its_own_key [of URL_parse "''not a url''" 0 "()" "[]", OF n] n show ?thesis by simp
qed

section \<open>Properties of the page model cache\<close>

lemma find_upsert_cache:
  "\<exists>row. find (\<lambda>r. pc_url_pattern r = p) (upsert_cache p d m now cache) = Some row \<and>
         pc_model_json row = m \<and> pc_last_updated row = now"
  by (induction cache) auto

lemma find_map_hit:
  "find (\<lambda>r. pc_url_pattern r = p) (map (\<lambda>r. if pc_url_pattern r = q then r\<lparr>pc_hit_count := pc_hit_count r + 1\<rparr> else r) cache)
    = map_option (\<lambda>r. if pc_url_pattern r = q then r\<lparr>pc_hit_count := pc_hit_count r + 1\<rparr> else r) (find (\<lambda>r. pc_url_pattern r = p) cache)"
  by (induction cache) auto

lemma getCachedModel_keeps_entry:
  assumes "\<exists>row. find (\<lambda>r. pc_url_pattern r = p) cache = Some row \<and> pc_model_json row = m \<and> pc_last_updated row = t"
  shows "\<exists>row. find (\<lambda>r. pc_url_pattern r = p) (snd (getCachedModel URL now u cache)) = Some row \<and>
           pc_model_json row = m \<and> pc_last_updated row = t"
proof -
  from assms obtain row where row: "find (\<lambda>r. pc_url_pattern r = p) cache = Some row"
    "pc_model_json row = m" "pc_last_updated row = t" by blast
  let ?hit = "\<lambda>r. if pc_url_pattern r = normalizeUrl URL u then r\<lparr>pc_hit_count := pc_hit_count r + 1\<rparr> else r"
  have "snd (getCachedModel URL now u cache) = cache \<or> snd (getCachedModel URL now u cache) = map ?hit cache"
    by (simp add: getCachedModel_def Let_def split: option.splits)
  then show ?thesis
  proof
    assume "snd (getCachedModel URL now u cache) = cache"
    with row show ?thesis by simp
  next
    assume "snd (getCachedModel URL now u cache) = map ?hit cache"
    moreover have "find (\<lambda>r. pc_url_pattern r = p) (map ?hit cache) = Some (?hit row)"
      by (simp only: find_map_hit row option.map)
    moreover have "pc_model_json (?hit row) = m" "pc_last_updated (?hit row) = t"
      using row by simp_all
    ultimately show ?thesis by simp
  qed
qed

lemma lookups_keep_entry:
  assumes "\<exists>row. find (\<lambda>r. pc_url_pattern r = p) cache = Some row \<and> pc_model_json row = m \<and> pc_last_updated row = t"
  shows "\<exists>row. find (\<lambda>r. pc_url_pattern r = p) (lookups URL reads cache) = Some row \<and>
           pc_model_json row = m \<and> pc_last_updated row = t"
  using assms
proof (induction reads arbitrary: cache)
  case Nil
  then show ?case by (simp add: lookups_def)
next
  case (Cons a reads)
  obtain now u where a: "a = (now, u)" by (cases a)
  from Cons.IH [OF getCachedModel_keeps_entry [OF Cons.prems, of URL now u]]
  show ?case by (simp add: lookups_def a)
qed

text \<open>
  Claim C3. After \<open>cacheModel\<close> of model \<open>m\<close> for \<open>u\<close> at time \<open>now\<close> and any run of
  lookups (of any URLs, at any times), a lookup of \<open>u\<close> at time \<open>now'\<close> returns nothing when
  more than \<open>CACHE_TTL_MS\<close>, thirty minutes, have passed since the write, and \<open>m\<close>
  otherwise; in particular the lookup that follows the write at once returns \<open>m\<close>.
\<close>

theorem cache_round_trip_and_expiry:
  "fst (getCachedModel URL now' u (lookups URL reads (cacheModel URL now u m cache)))
     = (if now' - now > CACHE_TTL_MS then None else Some m) \<and>
   fst (getCachedModel URL now u (cacheModel URL now u m cache)) = Some m \<and>
   CACHE_TTL_MS = 30 * 60 * 1000"
proof -
  have e: "\<exists>row. find (\<lambda>r. pc_url_pattern r = normalizeUrl URL u) (cacheModel URL now u m cache) = Some row \<and>
           pc_model_json row = m \<and> pc_last_updated row = now"
    unfolding cacheModel_def by (rule find_upsert_cache)
  from lookups_keep_entry [OF e, of URL reads]
  have 1: "fst (getCachedModel URL now' u (lookups URL reads (cacheModel URL now u m cache)))
     = (if now' - now > CACHE_TTL_MS then None else Some m)"
    by (auto simp: getCachedModel_def Let_def)
  from e have 2: "fst (getCachedModel URL now u (cacheModel URL now u m cache)) = Some m"
    by (auto simp: getCachedModel_def Let_def CACHE_TTL_MS_def)
  from 1 2 show ?thesis by (simp add: CACHE_TTL_MS_def)
qed

section \<open>Frame conditions of the executor\<close>

lemma driver_memory: "memory (snd (driver f w)) = memory w"
  by (simp add: driver_def split: prod.splits)

lemma driver_pageModels: "pageModels (snd (driver f w)) = pageModels w"
  by (simp add: driver_def split: prod.splits)

lemma await_cases:
  "await m k w = (case m w of (Inl err, w') \<Rightarrow> (Inl err, w') | (Inr a, w') \<Rightarrow> k a w')"
  by (simp add: await_def)

lemma await_frame:
  assumes "\<And>w. obs (snd (m w)) = obs w" and "\<And>a w. obs (snd (k a w)) = obs w"
  shows "obs (snd (await m k w)) = obs w"
proof (cases "m w")
  case (Pair r w')
  show ?thesis
  proof (cases r)
    case (Inl err)
    with Pair assms(1) [of w] show ?thesis by (simp add: await_def)
  next
    case (Inr a)
    with Pair assms(1) [of w] assms(2) [of a w'] show ?thesis by (simp add: await_def)
  qed
qed

lemma try_catch_frame:
  assumes "\<And>w. obs (snd (m w)) = obs w" and "\<And>err w. obs (snd (h err w)) = obs w"
  shows "obs (snd (try_catch m h w)) = obs w"
proof (cases "m w")
  case (Pair r w')
  show ?thesis
  proof (cases r)
    case (Inl err)
    with Pair assms(1) [of w] assms(2) [of err w'] show ?thesis by (simp add: try_catch_def)
  next
    case (Inr a)
    with Pair assms(1) [of w] show ?thesis by (simp add: try_catch_def)
  qed
qed

lemma resolve_frame: "obs (snd (resolve a w)) = obs w"
  by (simp add: resolve_def)

lemma driver_library: "selector_library (memory (snd (driver f w))) = selector_library (memory w)"
  by (simp add: driver_memory)

lemma analyze_library:
  "selector_library (memory (snd (analyze P u html tree ctx w))) = selector_library (memory w)"
  unfolding analyze_def
  by (rule await_frame [where obs = "\<lambda>w. selector_library (memory w)"]) (simp_all add: driver_memory)

lemma refreshModel_library:
  "selector_library (memory (snd (refreshModel P sessionId w))) = selector_library (memory w)"
  unfolding refreshModel_def
  apply (rule await_frame [where obs = "\<lambda>w. selector_library (memory w)"])
   apply (simp add: driver_memory)
  apply (rule await_frame [where obs = "\<lambda>w. selector_library (memory w)"])
   apply (simp add: driver_memory)
  apply (simp add: Let_def split: prod.splits option.splits)
  apply (intro conjI impI allI)
  apply (rule trans)
   apply (rule await_frame [where obs = "\<lambda>w. selector_library (memory w)"])
    apply (simp add: driver_memory)
   apply (rule await_frame [where obs = "\<lambda>w. selector_library (memory w)"])
    apply (simp add: driver_memory)
   apply (rule await_frame [where obs = "\<lambda>w. selector_library (memory w)"])
    apply (simp add: analyze_library)
   apply (rule await_frame [where obs = "\<lambda>w. selector_library (memory w)"])
    apply (simp add: update_memory_def)
   apply simp
  apply simp
  done

lemma getPageState_library:
  "selector_library (memory (snd (getPageState P sessionId w))) = selector_library (memory w)"
  by (simp add: getPageState_def refreshModel_library split: option.splits)

lemma fill_fields_memory: "memory (snd (fill_fields P sessionId params entries w)) = memory w"
proof (induction entries arbitrary: w)
  case Nil
  then show ?case by (simp add: resolve_def)
next
  case (Cons entry entries)
  obtain paramName selector where entry: "entry = (paramName, selector)" by (cases entry)
  have step: "memory (snd (await (driver f) (\<lambda>_. fill_fields P sessionId params entries) w)) = memory w" for f
    by (rule await_frame [where obs = memory]) (simp_all add: driver_memory Cons.IH)
  show ?case
    by (simp add: entry Cons.IH step split: option.splits)
qed

lemma read_param_own:
  "read_param P [(''email'', JStr ''a@b.c'')] ''email'' = Some (js_String P (JStr ''a@b.c''))"
  by (simp add: read_param_def)

lemma read_param_inherited:
  "read_param P [(''email'', JStr ''a@b.c'')] ''toString'' = Some (js_String_member P ''toString'')"
  by (simp add: read_param_def Object_prototype_members_def)

lemma read_param_undefined:
  "read_param P [(''email'', JStr ''a@b.c'')] ''password'' = None"
  by (simp add: read_param_def Object_prototype_members_def)

lemma remembered_click_memory: "memory (snd (remembered_click P sessionId action domain w)) = memory w"
  by (simp add: remembered_click_def Let_def driver_memory)

lemma performAction_memory: "memory (snd (performAction P sessionId action params domain w)) = memory w"
proof -
  have fill: "memory (snd (await (fill_fields P sessionId params entries) k w)) = memory w"
    if "\<And>a w. memory (snd (k a w)) = memory w" for entries k
    by (rule await_frame [where obs = memory]) (simp_all add: fill_fields_memory that)
  show ?thesis
    by (simp add: performAction_def Let_def driver_memory remembered_click_memory fill
        split: option.splits)
qed

lemma learnFromAction_no_hint:
  "ad_internal action = None \<Longrightarrow> learnFromAction domain actionName action success now lib = lib"
  by (simp add: learnFromAction_def)

lemma attempt_library:
  assumes "ad_internal action = None"
  shows "selector_library (memory (snd (attempt P sessionId actionName params model action urlBefore domain w)))
           = selector_library (memory w)"
  unfolding attempt_def
  apply (rule await_frame [where obs = "\<lambda>w. selector_library (memory w)"])
   apply (simp add: performAction_memory)
  apply (rule await_frame [where obs = "\<lambda>w. selector_library (memory w)"])
   apply simp
  apply (rule await_frame [where obs = "\<lambda>w. selector_library (memory w)"])
   apply (simp add: driver_memory)
  apply (simp add: resolve_def)
  apply (intro impI)
  apply (rule await_frame [where obs = "\<lambda>w. selector_library (memory w)"])
   apply (simp add: driver_memory)
  apply (rule await_frame [where obs = "\<lambda>w. selector_library (memory w)"])
   apply (simp add: update_memory_def)
  apply (rule await_frame [where obs = "\<lambda>w. selector_library (memory w)"])
   apply (simp add: refreshModel_library)
  apply (rule await_frame [where obs = "\<lambda>w. selector_library (memory w)"])
   apply (simp add: update_memory_def learnFromAction_no_hint [OF assms])
  apply (simp add: resolve_def)
  done

lemma failed_library:
  assumes "ad_internal action = None"
  shows "selector_library (memory (snd (failed P actionName model action domain err w)))
           = selector_library (memory w)"
  unfolding failed_def
  by (rule await_frame [where obs = "\<lambda>w. selector_library (memory w)"])
     (simp_all add: update_memory_def resolve_def learnFromAction_no_hint [OF assms])

text \<open>
  Claim C8. When the action that \<open>executeAction\<close> resolves carries no hint,
  \<open>performAction\<close> is the click on the selector the memory remembers, and whatever happens
  afterwards (the click succeeds or throws, a CAPTCHA appears, the refresh throws) the
  selector library is after the call what it was before: \<open>learnFromAction\<close> returns at once
  for an action without a hint, and nothing else writes the table.
\<close>

theorem hintless_action_leaves_selector_library:
  assumes state: "getPageState P sessionId w = (Inr model, w1)"
    and found: "find (\<lambda>a. ad_name a = actionName) (pm_available_actions model) = Some action"
    and hintless: "ad_internal action = None"
  shows "selector_library (memory (snd (executeAction P sessionId actionName params w)))
           = selector_library (memory w) \<and>
         performAction P sessionId action params domain = remembered_click P sessionId action domain"
proof
  have w1: "selector_library (memory w1) = selector_library (memory w)"
    using getPageState_library [of P sessionId w] state by simp
  let ?rest = "await (driver (engine_getCurrentUrl P sessionId)) (\<lambda>urlBefore.
             try_catch
               (attempt P sessionId actionName params model action urlBefore
                  (TaskExecutor_getDomain (new_URL P) urlBefore))
               (failed P actionName model action (TaskExecutor_getDomain (new_URL P) urlBefore)))"
  have run: "executeAction P sessionId actionName params w = ?rest w1"
    by (simp add: executeAction_def await_def state found)
  have "selector_library (memory (snd (?rest w1))) = selector_library (memory w1)"
    apply (rule await_frame [where obs = "\<lambda>w. selector_library (memory w)"])
     apply (simp add: driver_memory)
    apply (rule try_catch_frame [where obs = "\<lambda>w. selector_library (memory w)"])
     apply (simp add: attempt_library [OF hintless])
    apply (simp add: failed_library [OF hintless])
    done
  with run w1 show "selector_library (memory (snd (executeAction P sessionId actionName params w)))
           = selector_library (memory w)" by simp
next
  show "performAction P sessionId action params domain = remembered_click P sessionId action domain"
    by (simp add: performAction_def hintless)
qed

text \<open>
  Claim C9. When the driver reports a CAPTCHA, \<open>refreshModel\<close> returns the fixed CAPTCHA model
  and changes neither the map of current models nor the store; a \<open>getPageState\<close> that
  follows returns the model the session had before, when it had one.
\<close>

theorem refreshModel_captcha_keeps_current_model:
  assumes current: "engine_getCurrentUrl P sessionId (engine w) = (Inr u, e1)"
    and captcha: "engine_checkForCaptcha P sessionId e1 = (Inr True, e2)"
  shows "refreshModel P sessionId w = (Inr (buildCaptchaModel u (Date_now P e2)), w\<lparr>engine := e2\<rparr>) \<and>
         pageModels (snd (refreshModel P sessionId w)) = pageModels w \<and>
         memory (snd (refreshModel P sessionId w)) = memory w \<and>
         (\<forall>previous. pageModels w sessionId = Some previous \<longrightarrow>
            getPageState P sessionId (snd (refreshModel P sessionId w))
              = (Inr previous, snd (refreshModel P sessionId w)))"
proof -
  have r: "refreshModel P sessionId w = (Inr (buildCaptchaModel u (Date_now P e2)), w\<lparr>engine := e2\<rparr>)"
    by (simp add: refreshModel_def await_def driver_def current captcha)
  then show ?thesis by (simp add: getPageState_def)
qed

lemma recorded_failures_upsert:
  "recorded_failures (upsert_selector d a s ds df now lib) k
     = recorded_failures lib k + (if k = (d, a, s) then df else 0)"
  by (induction lib) (auto simp: recorded_failures_def sl_key_def)

lemma recorded_successes_upsert:
  "recorded_successes (upsert_selector d a s ds df now lib) k
     = recorded_successes lib k + (if k = (d, a, s) then ds else 0)"
  by (induction lib) (auto simp: recorded_successes_def sl_key_def)

lemma recorded_failures_outcome:
  "recorded_failures (recordSelectorOutcome d a s False now lib) k
     = recorded_failures lib k + (if k = (d, a, s) \<and> s \<noteq> [] then 1 else 0)"
  by (simp add: recordSelectorOutcome_def recorded_failures_upsert)

lemma recorded_successes_outcome:
  "recorded_successes (recordSelectorOutcome d a s False now lib) k = recorded_successes lib k"
  by (simp add: recordSelectorOutcome_def recorded_successes_upsert)

lemma fold_failures_mono:
  "recorded_failures lib k \<le> recorded_failures
     (fold (\<lambda>(paramName, selector) l.
        if selector \<noteq> [] then recordSelectorOutcome d (a @ ''.'' @ paramName) selector False now l else l)
        field_map lib) k"
proof (induction field_map arbitrary: lib)
  case Nil
  then show ?case by simp
next
  case (Cons entry field_map)
  obtain p s where entry: "entry = (p, s)" by (cases entry)
  let ?lib = "if s \<noteq> [] then recordSelectorOutcome d (a @ ''.'' @ p) s False now lib else lib"
  have "recorded_failures lib k \<le> recorded_failures ?lib k"
    by (simp add: recorded_failures_outcome)
  also note Cons.IH [of ?lib]
  finally show ?case by (simp add: entry)
qed

lemma fold_failures_entry:
  assumes "(p, s) \<in> set field_map" and "s \<noteq> []"
  shows "recorded_failures lib (d, a @ ''.'' @ p, s) + 1 \<le> recorded_failures
     (fold (\<lambda>(paramName, selector) l.
        if selector \<noteq> [] then recordSelectorOutcome d (a @ ''.'' @ paramName) selector False now l else l)
        field_map lib) (d, a @ ''.'' @ p, s)"
  using assms(1)
proof (induction field_map arbitrary: lib)
  case Nil
  then show ?case by simp
next
  case (Cons entry field_map)
  obtain p' s' where entry: "entry = (p', s')" by (cases entry)
  let ?step = "\<lambda>(paramName, selector) l.
        if selector \<noteq> [] then recordSelectorOutcome d (a @ ''.'' @ paramName) selector False now l else l"
  let ?lib = "if s' \<noteq> [] then recordSelectorOutcome d (a @ ''.'' @ p') s' False now lib else lib"
  let ?k = "(d, a @ ''.'' @ p, s)"
  have unfold: "fold ?step (entry # field_map) lib = fold ?step field_map ?lib"
    by (simp add: entry)
  show ?case
  proof (cases "(p, s) = (p', s')")
    case True
    with assms(2) have "recorded_failures ?lib ?k = recorded_failures lib ?k + 1"
      by (simp add: recorded_failures_outcome)
    moreover have "recorded_failures ?lib ?k \<le> recorded_failures (fold ?step field_map ?lib) ?k"
      by (rule fold_failures_mono)
    ultimately show ?thesis unfolding unfold by simp
  next
    case False
    with Cons.prems entry have "(p, s) \<in> set field_map" by auto
    from Cons.IH [OF this, of ?lib]
    have "recorded_failures ?lib ?k + 1 \<le> recorded_failures (fold ?step field_map ?lib) ?k" .
    moreover have "recorded_failures lib ?k \<le> recorded_failures ?lib ?k"
      by (simp add: recorded_failures_outcome)
    ultimately show ?thesis unfolding unfold by simp
  qed
qed

lemma fold_successes:
  "recorded_successes
     (fold (\<lambda>(paramName, selector) l.
        if selector \<noteq> [] then recordSelectorOutcome d (a @ ''.'' @ paramName) selector False now l else l)
        field_map lib) k = recorded_successes lib k"
  by (induction field_map arbitrary: lib) (auto simp: recorded_successes_outcome)

lemma learnFromAction_failure_successes:
  "recorded_successes (learnFromAction domain actionName action False now lib) k = recorded_successes lib k"
proof (cases "ad_internal action")
  case None
  then show ?thesis by (simp add: learnFromAction_def)
next
  case (Some internal)
  show ?thesis
    unfolding learnFromAction_def Some option.case Let_def
    by (cases "ai_field_map internal") (simp_all add: recorded_successes_outcome fold_successes)
qed

lemma learnFromAction_failure_mono:
  "recorded_failures lib k \<le> recorded_failures (learnFromAction domain actionName action False now lib) k"
proof (cases "ad_internal action")
  case None
  then show ?thesis by (simp add: learnFromAction_def)
next
  case (Some internal)
  define lib1 where "lib1 = (if or_empty (ai_selector internal) \<noteq> []
     then recordSelectorOutcome domain actionName (or_empty (ai_selector internal)) False now lib else lib)"
  define lib2 where "lib2 = (case ai_field_map internal of None \<Rightarrow> lib1
     | Some field_map \<Rightarrow> fold (\<lambda>(paramName, selector) l.
         if selector \<noteq> [] then recordSelectorOutcome domain (actionName @ ''.'' @ paramName) selector False now l
         else l) field_map lib1)"
  have 1: "recorded_failures lib k \<le> recorded_failures lib1 k"
    by (simp add: lib1_def recorded_failures_outcome)
  have 2: "recorded_failures lib1 k \<le> recorded_failures lib2 k"
    unfolding lib2_def by (cases "ai_field_map internal") (simp_all add: fold_failures_mono)
  have l3: "learnFromAction domain actionName action False now lib = (if or_empty (ai_submit_selector internal) \<noteq> []
      then recordSelectorOutcome domain (actionName @ ''.submit'') (or_empty (ai_submit_selector internal)) False now lib2
      else lib2)"
    unfolding learnFromAction_def Some option.case Let_def lib2_def lib1_def by (rule refl)
  have 3: "recorded_failures lib2 k \<le> recorded_failures (learnFromAction domain actionName action False now lib) k"
    by (simp add: l3 recorded_failures_outcome)
  from 1 2 3 show ?thesis by linarith
qed

lemma learnFromAction_failure_recorded:
  assumes "ad_internal action = Some internal"
  shows "(or_empty (ai_selector internal) \<noteq> [] \<longrightarrow>
           recorded_failures lib (domain, actionName, or_empty (ai_selector internal)) + 1
             \<le> recorded_failures (learnFromAction domain actionName action False now lib)
                  (domain, actionName, or_empty (ai_selector internal))) \<and>
         (\<forall>(paramName, selector) \<in> set (nullish (ai_field_map internal) []). selector \<noteq> [] \<longrightarrow>
           recorded_failures lib (domain, actionName @ ''.'' @ paramName, selector) + 1
             \<le> recorded_failures (learnFromAction domain actionName action False now lib)
                  (domain, actionName @ ''.'' @ paramName, selector)) \<and>
         (or_empty (ai_submit_selector internal) \<noteq> [] \<longrightarrow>
           recorded_failures lib (domain, actionName @ ''.submit'', or_empty (ai_submit_selector internal)) + 1
             \<le> recorded_failures (learnFromAction domain actionName action False now lib)
                  (domain, actionName @ ''.submit'', or_empty (ai_submit_selector internal)))"
proof -
  define lib1 where "lib1 = (if or_empty (ai_selector internal) \<noteq> []
     then recordSelectorOutcome domain actionName (or_empty (ai_selector internal)) False now lib else lib)"
  define lib2 where "lib2 = (case ai_field_map internal of None \<Rightarrow> lib1
     | Some field_map \<Rightarrow> fold (\<lambda>(paramName, selector) l.
         if selector \<noteq> [] then recordSelectorOutcome domain (actionName @ ''.'' @ paramName) selector False now l
         else l) field_map lib1)"
  define lib3 where "lib3 = learnFromAction domain actionName action False now lib"
  have l3: "lib3 = (if or_empty (ai_submit_selector internal) \<noteq> []
      then recordSelectorOutcome domain (actionName @ ''.submit'') (or_empty (ai_submit_selector internal)) False now lib2
      else lib2)"
    unfolding lib3_def learnFromAction_def assms option.case Let_def lib2_def lib1_def by (rule refl)
  have m1: "recorded_failures lib k \<le> recorded_failures lib1 k" for k
    by (simp add: lib1_def recorded_failures_outcome)
  have m2: "recorded_failures lib1 k \<le> recorded_failures lib2 k" for k
    unfolding lib2_def by (cases "ai_field_map internal") (simp_all add: fold_failures_mono)
  have m3: "recorded_failures lib2 k \<le> recorded_failures lib3 k" for k
    by (simp add: l3 recorded_failures_outcome)
  have a: "recorded_failures lib (domain, actionName, or_empty (ai_selector internal)) + 1
             \<le> recorded_failures lib3 (domain, actionName, or_empty (ai_selector internal))"
    if "or_empty (ai_selector internal) \<noteq> []"
  proof -
    have "recorded_failures lib1 (domain, actionName, or_empty (ai_selector internal))
        = recorded_failures lib (domain, actionName, or_empty (ai_selector internal)) + 1"
      using that by (simp add: lib1_def recorded_failures_outcome)
    with m2 [of "(domain, actionName, or_empty (ai_selector internal))"]
      m3 [of "(domain, actionName, or_empty (ai_selector internal))"]
    show ?thesis by linarith
  qed
  have b: "recorded_failures lib (domain, actionName @ ''.'' @ p, s) + 1
             \<le> recorded_failures lib3 (domain, actionName @ ''.'' @ p, s)"
    if "(p, s) \<in> set (nullish (ai_field_map internal) [])" "s \<noteq> []" for p s
  proof -
    from that(1) obtain field_map where fm: "ai_field_map internal = Some field_map" "(p, s) \<in> set field_map"
      by (cases "ai_field_map internal") (auto simp: nullish_def)
    have "recorded_failures lib1 (domain, actionName @ ''.'' @ p, s) + 1
        \<le> recorded_failures lib2 (domain, actionName @ ''.'' @ p, s)"
      unfolding lib2_def fm(1) option.case by (rule fold_failures_entry [OF fm(2) that(2)])
    with m1 [of "(domain, actionName @ ''.'' @ p, s)"] m3 [of "(domain, actionName @ ''.'' @ p, s)"]
    show ?thesis by linarith
  qed
  have c: "recorded_failures lib (domain, actionName @ ''.submit'', or_empty (ai_submit_selector internal)) + 1
             \<le> recorded_failures lib3 (domain, actionName @ ''.submit'', or_empty (ai_submit_selector internal))"
    if "or_empty (ai_submit_selector internal) \<noteq> []"
  proof -
    let ?k = "(domain, actionName @ ''.submit'', or_empty (ai_submit_selector internal))"
    have "recorded_failures lib3 ?k = recorded_failures lib2 ?k + 1"
      using that by (simp add: l3 recorded_failures_outcome)
    with m1 [of ?k] m2 [of ?k] show ?thesis by linarith
  qed
  from a b c show ?thesis unfolding lib3_def by blast
qed

lemma driver_outcome:
  "f (engine w) = (outcome, e') \<Longrightarrow> driver f w = (outcome, w\<lparr>engine := e'\<rparr>)"
  by (simp add: driver_def)

lemma failed_outcome:
  "failed P actionName model action domain err w =
     (Inr (errorResult (''Action '' @ [CHR 0x27] @ actionName @ [CHR 0x27] @ '' failed: '' @ err) model),
      w\<lparr>memory := (memory w)\<lparr>selector_library :=
            learnFromAction domain actionName action False (Date_now P (engine w))
              (selector_library (memory w))\<rparr>\<rparr>)"
  by (simp add: failed_def await_def update_memory_def resolve_def)

lemma attempt_thrown:
  assumes "performAction P sessionId action params domain w2 = (Inl err, w3) \<or>
       (\<exists>w' e3. performAction P sessionId action params domain w2 = (Inr (), w') \<and>
          engine_checkForCaptcha P sessionId (settle_delay P (engine w')) = (Inl err, e3) \<and>
          w3 = w'\<lparr>engine := e3\<rparr>)"
  shows "attempt P sessionId actionName params model action urlBefore domain w2 = (Inl err, w3)"
  using assms
proof
  assume "performAction P sessionId action params domain w2 = (Inl err, w3)"
  then show ?thesis by (simp add: attempt_def await_def)
next
  assume "\<exists>w' e3. performAction P sessionId action params domain w2 = (Inr (), w') \<and>
          engine_checkForCaptcha P sessionId (settle_delay P (engine w')) = (Inl err, e3) \<and>
          w3 = w'\<lparr>engine := e3\<rparr>"
  then obtain w' e3 where p: "performAction P sessionId action params domain w2 = (Inr (), w')"
    and c: "engine_checkForCaptcha P sessionId (settle_delay P (engine w')) = (Inl err, e3)"
    and w3: "w3 = w'\<lparr>engine := e3\<rparr>" by blast
  show ?thesis
    by (simp add: attempt_def await_def p driver_def c w3)
qed

lemma attempt_thrown_memory:
  assumes "performAction P sessionId action params domain w2 = (Inl err, w3) \<or>
       (\<exists>w' e3. performAction P sessionId action params domain w2 = (Inr (), w') \<and>
          engine_checkForCaptcha P sessionId (settle_delay P (engine w')) = (Inl err, e3) \<and>
          w3 = w'\<lparr>engine := e3\<rparr>)"
  shows "memory w3 = memory w2"
  using assms performAction_memory [of P sessionId action params domain w2] by auto

text \<open>
  Claim C5, as the code has it. Let the action be resolved on the current model and let
  \<open>performAction\<close>, or the CAPTCHA check after the settle delay, throw \<open>err\<close>. Then
  \<open>executeAction\<close> returns the failure result whose error is \<^verbatim>\<open>Action 'A' failed: \<close> followed by
  \<open>err\<close> and whose next actions are the names of the model read before the action. The
  selector library is the one \<open>learnFromAction\<close> computes with \<open>success = False\<close>: no
  success is added anywhere, and one more failure is on record for the hint's selector, for
  each non-empty selector of its field map and for its submit selector. The site profiles
  are left as they were: no note is appended on this path.
\<close>

theorem executeAction_failure_learns_and_reports:
  assumes state: "getPageState P sessionId w = (Inr model, w1)"
    and found: "find (\<lambda>a. ad_name a = actionName) (pm_available_actions model) = Some action"
    and before: "engine_getCurrentUrl P sessionId (engine w1) = (Inr urlBefore, e2)"
    and domain: "domain = TaskExecutor_getDomain (new_URL P) urlBefore"
    and thrown: "performAction P sessionId action params domain (w1\<lparr>engine := e2\<rparr>) = (Inl err, w3) \<or>
       (\<exists>w' e3. performAction P sessionId action params domain (w1\<lparr>engine := e2\<rparr>) = (Inr (), w') \<and>
          engine_checkForCaptcha P sessionId (settle_delay P (engine w')) = (Inl err, e3) \<and>
          w3 = w'\<lparr>engine := e3\<rparr>)"
  shows "fst (executeAction P sessionId actionName params w)
           = Inr (errorResult (''Action '' @ [CHR 0x27] @ actionName @ [CHR 0x27] @ '' failed: '' @ err) model) \<and>
         (\<exists>result. fst (executeAction P sessionId actionName params w) = Inr result \<and>
            \<not> ar_success result \<and>
            ar_error result = Some (''Action '' @ [CHR 0x27] @ actionName @ [CHR 0x27] @ '' failed: '' @ err) \<and>
            ar_next_available_actions result = map ad_name (pm_available_actions model)) \<and>
         selector_library (memory (snd (executeAction P sessionId actionName params w)))
           = learnFromAction domain actionName action False (Date_now P (engine w3))
               (selector_library (memory w1)) \<and>
         site_profiles (memory (snd (executeAction P sessionId actionName params w)))
           = site_profiles (memory w1) \<and>
         (\<forall>k. recorded_successes (selector_library (memory (snd (executeAction P sessionId actionName params w)))) k
               = recorded_successes (selector_library (memory w1)) k) \<and>
         (\<forall>internal. ad_internal action = Some internal \<longrightarrow>
           (or_empty (ai_selector internal) \<noteq> [] \<longrightarrow>
              recorded_failures (selector_library (memory w1))
                  (domain, actionName, or_empty (ai_selector internal)) + 1
                \<le> recorded_failures (selector_library (memory (snd (executeAction P sessionId actionName params w))))
                  (domain, actionName, or_empty (ai_selector internal))) \<and>
           (\<forall>(paramName, selector) \<in> set (nullish (ai_field_map internal) []). selector \<noteq> [] \<longrightarrow>
              recorded_failures (selector_library (memory w1))
                  (domain, actionName @ ''.'' @ paramName, selector) + 1
                \<le> recorded_failures (selector_library (memory (snd (executeAction P sessionId actionName params w))))
                  (domain, actionName @ ''.'' @ paramName, selector)) \<and>
           (or_empty (ai_submit_selector internal) \<noteq> [] \<longrightarrow>
              recorded_failures (selector_library (memory w1))
                  (domain, actionName @ ''.submit'', or_empty (ai_submit_selector internal)) + 1
                \<le> recorded_failures (selector_library (memory (snd (executeAction P sessionId actionName params w))))
                  (domain, actionName @ ''.submit'', or_empty (ai_submit_selector internal))))"
proof -
  let ?msg = "''Action '' @ [CHR 0x27] @ actionName @ [CHR 0x27] @ '' failed: '' @ err"
  let ?lib = "learnFromAction domain actionName action False (Date_now P (engine w3)) (selector_library (memory w1))"
  have m3: "memory w3 = memory w1"
    using attempt_thrown_memory [OF thrown] by simp
  have a: "attempt P sessionId actionName params model action urlBefore domain (w1\<lparr>engine := e2\<rparr>) = (Inl err, w3)"
    by (rule attempt_thrown [OF thrown])
  have run: "executeAction P sessionId actionName params w =
      (Inr (errorResult ?msg model), w3\<lparr>memory := (memory w3)\<lparr>selector_library := ?lib\<rparr>\<rparr>)"
    by (simp add: executeAction_def await_def state found driver_def before try_catch_def
        a [unfolded domain] failed_outcome m3 domain)
  have 1: "fst (executeAction P sessionId actionName params w) = Inr (errorResult ?msg model)"
    by (simp add: run)
  have 2: "\<exists>result. fst (executeAction P sessionId actionName params w) = Inr result \<and>
            \<not> ar_success result \<and> ar_error result = Some ?msg \<and>
            ar_next_available_actions result = map ad_name (pm_available_actions model)"
    by (simp add: run errorResult_def)
  have 3: "selector_library (memory (snd (executeAction P sessionId actionName params w))) = ?lib"
    by (simp add: run)
  have 4: "site_profiles (memory (snd (executeAction P sessionId actionName params w))) = site_profiles (memory w1)"
    by (simp add: run m3)
  have 5: "\<forall>k. recorded_successes (selector_library (memory (snd (executeAction P sessionId actionName params w)))) k
               = recorded_successes (selector_library (memory w1)) k"
    by (simp add: 3 learnFromAction_failure_successes)
  have 6: "\<forall>internal. ad_internal action = Some internal \<longrightarrow>
           (or_empty (ai_selector internal) \<noteq> [] \<longrightarrow>
              recorded_failures (selector_library (memory w1))
                  (domain, actionName, or_empty (ai_selector internal)) + 1
                \<le> recorded_failures (selector_library (memory (snd (executeAction P sessionId actionName params w))))
                  (domain, actionName, or_empty (ai_selector internal))) \<and>
           (\<forall>(paramName, selector) \<in> set (nullish (ai_field_map internal) []). selector \<noteq> [] \<longrightarrow>
              recorded_failures (selector_library (memory w1))
                  (domain, actionName @ ''.'' @ paramName, selector) + 1
                \<le> recorded_failures (selector_library (memory (snd (executeAction P sessionId actionName params w))))
                  (domain, actionName @ ''.'' @ paramName, selector)) \<and>
           (or_empty (ai_submit_selector internal) \<noteq> [] \<longrightarrow>
              recorded_failures (selector_library (memory w1))
                  (domain, actionName @ ''.submit'', or_empty (ai_submit_selector internal)) + 1
                \<le> recorded_failures (selector_library (memory (snd (executeAction P sessionId actionName params w))))
                  (domain, actionName @ ''.submit'', or_empty (ai_submit_selector internal)))"
    unfolding 3 by (intro allI impI) (rule learnFromAction_failure_recorded)
  from 1 2 3 4 5 6 show ?thesis by (intro conjI)
qed

lemma getCachedModel_miss:
  "fst (getCachedModel URL now u cache) = None \<Longrightarrow> getCachedModel URL now u cache = (None, cache)"
  by (auto simp: getCachedModel_def Let_def split: option.splits if_splits)

text \<open>
  Claim C6, as the code has it. \<open>buildModel\<close> takes \<^verbatim>\<open>key_data\<close> from the translator's output
  as it is, or empty when missing, and \<open>refreshModel\<close>, on a cache miss that the translator
  answers with a parsed object, returns and adopts that model: the model has as many key
  facts as the translator's output, whatever their number.
\<close>

theorem key_data_passes_through_unchanged:
  assumes current: "engine_getCurrentUrl P sessionId (engine w) = (Inr u, e1)"
    and captcha: "engine_checkForCaptcha P sessionId e1 = (Inr False, e2)"
    and miss: "fst (getCachedModel (new_URL P) (Date_now P e2) u (page_model_cache (memory w))) = None"
    and html: "engine_getPageHTML P sessionId e2 = (Inr html, e3)"
    and tree: "engine_getAccessibilityTree P sessionId e3 = (Inr accessTree, e4)"
    and reply: "llm_translate P u html accessTree
                  (memory_buildLLMContext P (memory w) (TaskExecutor_getDomain (new_URL P) u)) e4
                = (Inr (Parsed parsed), e5)"
  shows "pm_key_data (buildModel u parsed now) = nullish (parsed_key_data parsed) [] \<and>
         fst (refreshModel P sessionId w) = Inr (buildModel u parsed (Date_now P e5)) \<and>
         pageModels (snd (refreshModel P sessionId w)) sessionId = Some (buildModel u parsed (Date_now P e5)) \<and>
         length (pm_key_data (buildModel u parsed (Date_now P e5))) = length (nullish (parsed_key_data parsed) [])"
proof -
  have k: "pm_key_data (buildModel u parsed t) = nullish (parsed_key_data parsed) []" for t
    by (simp add: buildModel_def)
  have r: "fst (refreshModel P sessionId w) = Inr (buildModel u parsed (Date_now P e5)) \<and>
         pageModels (snd (refreshModel P sessionId w)) sessionId = Some (buildModel u parsed (Date_now P e5))"
    by (simp add: refreshModel_def await_def driver_def current captcha getCachedModel_miss [OF miss]
        html tree analyze_def reply update_memory_def Let_def)
  from k r show ?thesis by simp
qed

lemma runTask_createSession_throws:
  "engine_createSession P (engine w) = (Inl err, e') \<Longrightarrow> runTask P task w = (Inl err, w\<lparr>engine := e'\<rparr>)"
  by (simp add: runTask_def await_def driver_def)

lemma runTask_destroySession_throws:
  assumes "engine_createSession P (engine w) = (Inr sessionId, e1)"
    and "\<And>e. engine_destroySession P sessionId e = (Inl err, e)"
  shows "fst (runTask P task w) = Inl err"
  using assms
  by (simp add: runTask_def await_def driver_def try_finally_def split: prod.splits)

section \<open>The executor on the simulated platform\<close>

lemmas sim_eval =
  sim_platform_def sim_world_def sim_getPage_def sim_createSession_def sim_destroySession_def
  sim_navigate_def sim_getCurrentUrl_def sim_checkForCaptcha_def sim_content_def sim_click_def
  sim_fill_def sim_translate_def sim_String_def sim_String_member_def

lemmas async_eval = await_def resolve_def driver_def try_catch_def try_finally_def update_memory_def
  read_param_def Object_prototype_members_def

lemma login_state: "getPageState sim_platform ''s'' login_world = (Inr login_model, login_world)"
  by (simp add: getPageState_def login_world_def sim_world_def)

lemma login_found:
  "find (\<lambda>a. ad_name a = ''authenticate'') (pm_available_actions login_model) = Some authenticate_action"
  by (simp add: login_model_def buildModel_def login_reply_def nullish_def authenticate_action_def)

lemma login_url:
  "engine_getCurrentUrl sim_platform ''s'' (engine login_world) = (Inr ''https://shop.example/login'', engine login_world)"
  by (simp add: login_world_def sim_eval)

lemma login_domain: "TaskExecutor_getDomain (new_URL sim_platform) ''https://shop.example/login'' = ''shop.example''"
  by (simp add: TaskExecutor_getDomain_def sim_platform_def URL_parse_eval)

lemma login_thrown:
  "performAction sim_platform ''s'' authenticate_action [(''email'', JStr ''a@b.c'')] ''shop.example''
     login_world = (Inl ''Timeout 10000ms exceeded.'', login_world)"
  by (simp add: performAction_def authenticate_action_def nullish_def or_empty_def async_eval
      login_world_def sim_eval)

theorem executeAction_failure_learns_and_reports_witness:
  "getPageState sim_platform ''s'' login_world = (Inr login_model, login_world) \<and>
   find (\<lambda>a. ad_name a = ''authenticate'') (pm_available_actions login_model) = Some authenticate_action \<and>
   performAction sim_platform ''s'' authenticate_action [(''email'', JStr ''a@b.c'')] ''shop.example''
     (login_world\<lparr>engine := engine login_world\<rparr>) = (Inl ''Timeout 10000ms exceeded.'', login_world) \<and>
   fst (executeAction sim_platform ''s'' ''authenticate'' [(''email'', JStr ''a@b.c'')] login_world)
     = Inr (errorResult ''Action 'authenticate' failed: Timeout 10000ms exceeded.'' login_model) \<and>
   site_profiles (memory (snd (executeAction sim_platform ''s'' ''authenticate'' [(''email'', JStr ''a@b.c'')] login_world)))
     = [] \<and>
   1 \<le> recorded_failures
     (selector_library (memory (snd (executeAction sim_platform ''s'' ''authenticate'' [(''email'', JStr ''a@b.c'')] login_world))))
     (''shop.example'', ''authenticate.submit'', ''#missing'') \<and>
   1 \<le> recorded_failures
     (selector_library (memory (snd (executeAction sim_platform ''s'' ''authenticate'' [(''email'', JStr ''a@b.c'')] login_world))))
     (''shop.example'', ''authenticate.email'', ''#email'')"
proof -
  have d: "''shop.example'' = TaskExecutor_getDomain (new_URL sim_platform) ''https://shop.example/login''"
    by (simp add: login_domain)
  have t: "performAction sim_platform ''s'' authenticate_action [(''email'', JStr ''a@b.c'')] ''shop.example''
       (login_world\<lparr>engine := engine login_world\<rparr>) = (Inl ''Timeout 10000ms exceeded.'', login_world) \<or>
     (\<exists>w' e3. performAction sim_platform ''s'' authenticate_action [(''email'', JStr ''a@b.c'')] ''shop.example''
          (login_world\<lparr>engine := engine login_world\<rparr>) = (Inr (), w') \<and>
        engine_checkForCaptcha sim_platform ''s'' (settle_delay sim_platform (engine w')) = (Inl ''Timeout 10000ms exceeded.'', e3) \<and>
        login_world = w'\<lparr>engine := e3\<rparr>)"
    using login_thrown by simp
  have i: "ad_internal authenticate_action = Some \<lparr>ai_type = FormHint, ai_selector = None,
              ai_field_map = Some [(''email'', ''#email'')], ai_submit_selector = Some ''#missing''\<rparr>"
    by (simp add: authenticate_action_def)
  have m: "site_profiles (memory login_world) = []" "selector_library (memory login_world) = []"
    by (simp_all add: login_world_def sim_world_def empty_store_def)
  note c = executeAction_failure_learns_and_reports [OF login_state login_found login_url d t]
  from c have r: "fst (executeAction sim_platform ''s'' ''authenticate'' [(''email'', JStr ''a@b.c'')] login_world)
     = Inr (errorResult (''Action '' @ [CHR 0x27] @ ''authenticate'' @ [CHR 0x27] @ '' failed: '' @ ''Timeout 10000ms exceeded.'') login_model)"
    by blast
  from c have p: "site_profiles (memory (snd (executeAction sim_platform ''s'' ''authenticate'' [(''email'', JStr ''a@b.c'')] login_world)))
     = site_profiles (memory login_world)"
    by blast
  from c have l: "selector_library (memory (snd (executeAction sim_platform ''s'' ''authenticate'' [(''email'', JStr ''a@b.c'')] login_world)))
     = learnFromAction ''shop.example'' ''authenticate'' authenticate_action False
         (Date_now sim_platform (engine login_world)) (selector_library (memory login_world))"
    by blast
  have rows: "learnFromAction ''shop.example'' ''authenticate'' authenticate_action False
         (Date_now sim_platform (engine login_world)) (selector_library (memory login_world))
      = [\<lparr>sl_domain = ''shop.example'', sl_action_name = ''authenticate.email'', sl_selector = ''#email'',
           sl_success_count = 0, sl_fail_count = 1, sl_last_used = 1000\<rparr>,
         \<lparr>sl_domain = ''shop.example'', sl_action_name = ''authenticate.submit'', sl_selector = ''#missing'',
           sl_success_count = 0, sl_fail_count = 1, sl_last_used = 1000\<rparr>]"
    by (simp add: learnFromAction_def authenticate_action_def or_empty_def recordSelectorOutcome_def
        sl_key_def login_world_def sim_world_def sim_platform_def empty_store_def)
  from r p l rows m login_state login_found login_thrown show ?thesis
    by (simp add: recorded_failures_def sl_key_def)
qed

text \<open>
  The claim as stated has the profile note appended on the failure path. On the login page of
  the simulated site the submit button is missing and the click throws; the call returns the
  failure result, and the site profiles, empty before, are empty after.
\<close>

theorem executeAction_failure_counterexample:
  "fst (executeAction sim_platform ''s'' ''authenticate'' [(''email'', JStr ''a@b.c'')] login_world)
     = Inr (errorResult ''Action 'authenticate' failed: Timeout 10000ms exceeded.'' login_model) \<and>
   site_profiles (memory login_world) = [] \<and>
   site_profiles (memory (snd (executeAction sim_platform ''s'' ''authenticate'' [(''email'', JStr ''a@b.c'')] login_world)))
     = []"
proof -
  have a: "attempt sim_platform ''s'' ''authenticate'' [(''email'', JStr ''a@b.c'')] login_model
      authenticate_action ''https://shop.example/login'' ''shop.example'' login_world
      = (Inl ''Timeout 10000ms exceeded.'', login_world)"
    using login_thrown by (simp add: attempt_def await_def)
  have "executeAction sim_platform ''s'' ''authenticate'' [(''email'', JStr ''a@b.c'')] login_world
     = failed sim_platform ''authenticate'' login_model authenticate_action ''shop.example''
         ''Timeout 10000ms exceeded.'' login_world"
    using login_url
    by (simp add: executeAction_def await_def login_state login_found driver_def login_domain
        try_catch_def a)
  then show ?thesis
    by (simp add: failed_outcome login_world_def sim_world_def empty_store_def)
qed

lemma item_state: "getPageState sim_platform ''s'' item_world = (Inr item_model, item_world)"
  by (simp add: getPageState_def item_world_def sim_world_def)

lemma item_found:
  "find (\<lambda>a. ad_name a = ''add_to_cart'') (pm_available_actions item_model) = Some add_to_cart_action"
  by (simp add: item_model_def buildModel_def item_reply_def nullish_def add_to_cart_action_def)

lemma item_best: "getBestSelector ''shop.com'' ''add_to_cart'' (selector_library (memory item_world)) = Some ''#add-btn''"
  by (simp add: item_world_def sim_world_def empty_store_def shop_lib_rows getBestSelector_def
      eligible_def attempts_def sorts_before_def rate_compare rate_below_half_small)

lemma item_click:
  "remembered_click sim_platform ''s'' add_to_cart_action ''shop.com'' item_world = (Inr (), item_world)"
proof -
  have "engine_click sim_platform ''s'' ''#add-btn'' (engine item_world) = (Inr (), engine item_world)"
    by (simp add: item_world_def sim_eval)
  then show ?thesis
    by (simp add: remembered_click_def add_to_cart_action_def item_best [unfolded add_to_cart_action_def]
        or_empty_def driver_def)
qed

theorem hintless_action_leaves_selector_library_witness:
  "getPageState sim_platform ''s'' item_world = (Inr item_model, item_world) \<and>
   find (\<lambda>a. ad_name a = ''add_to_cart'') (pm_available_actions item_model) = Some add_to_cart_action \<and>
   ad_internal add_to_cart_action = None \<and>
   getBestSelector ''shop.com'' ''add_to_cart'' (selector_library (memory item_world)) = Some ''#add-btn'' \<and>
   performAction sim_platform ''s'' add_to_cart_action [] ''shop.com'' item_world = (Inr (), item_world) \<and>
   selector_library (memory (snd (executeAction sim_platform ''s'' ''add_to_cart'' [] item_world))) = shop_lib"
proof -
  have h: "ad_internal add_to_cart_action = None" by (simp add: add_to_cart_action_def)
  have l: "selector_library (memory item_world) = shop_lib"
    by (simp add: item_world_def sim_world_def)
  from hintless_action_leaves_selector_library [OF item_state item_found h, of "[]" "''shop.com''"]
    item_state item_found h item_best item_click l
  show ?thesis by simp
qed

lemma challenged_url:
  "engine_getCurrentUrl sim_platform ''s'' (engine challenged_world)
     = (Inr ''https://shop.example/captcha'', engine challenged_world)"
  by (simp add: challenged_world_def sim_eval)

lemma challenged_captcha:
  "engine_checkForCaptcha sim_platform ''s'' (engine challenged_world) = (Inr True, engine challenged_world)"
  by (simp add: challenged_world_def sim_eval)

theorem refreshModel_captcha_keeps_current_model_witness:
  "engine_getCurrentUrl sim_platform ''s'' (engine challenged_world)
     = (Inr ''https://shop.example/captcha'', engine challenged_world) \<and>
   engine_checkForCaptcha sim_platform ''s'' (engine challenged_world) = (Inr True, engine challenged_world) \<and>
   pageModels challenged_world ''s'' = Some login_model \<and>
   refreshModel sim_platform ''s'' challenged_world
     = (Inr (buildCaptchaModel ''https://shop.example/captcha'' 1000), challenged_world) \<and>
   getPageState sim_platform ''s'' (snd (refreshModel sim_platform ''s'' challenged_world))
     = (Inr login_model, challenged_world) \<and>
   pm_page_type login_model = Login \<and>
   pm_page_type (buildCaptchaModel ''https://shop.example/captcha'' 1000) = Captcha"
proof -
  have p: "pageModels challenged_world ''s'' = Some login_model"
    by (simp add: challenged_world_def sim_world_def)
  have t: "Date_now sim_platform (engine challenged_world) = 1000"
    by (simp add: challenged_world_def sim_world_def sim_platform_def)
  have e: "challenged_world\<lparr>engine := engine challenged_world\<rparr> = challenged_world"
    by simp
  have k: "pm_page_type login_model = Login"
    by (simp add: login_model_def buildModel_def login_reply_def nullish_def)
  note c = refreshModel_captcha_keeps_current_model [OF challenged_url challenged_captcha]
  from c have r: "refreshModel sim_platform ''s'' challenged_world
      = (Inr (buildCaptchaModel ''https://shop.example/captcha'' (Date_now sim_platform (engine challenged_world))),
         challenged_world\<lparr>engine := engine challenged_world\<rparr>)"
    by blast
  from c p have g: "getPageState sim_platform ''s'' (snd (refreshModel sim_platform ''s'' challenged_world))
      = (Inr login_model, snd (refreshModel sim_platform ''s'' challenged_world))"
    by blast
  have r': "refreshModel sim_platform ''s'' challenged_world
      = (Inr (buildCaptchaModel ''https://shop.example/captcha'' 1000), challenged_world)"
    using r by (simp add: t)
  have g': "getPageState sim_platform ''s'' (snd (refreshModel sim_platform ''s'' challenged_world))
      = (Inr login_model, challenged_world)"
    using g by (simp add: r')
  have b: "pm_page_type (buildCaptchaModel ''https://shop.example/captcha'' 1000) = Captcha"
    by (simp add: buildCaptchaModel_def)
  from challenged_url challenged_captcha p r' g' k b show ?thesis by (intro conjI)
qed

lemma wide_url:
  "engine_getCurrentUrl sim_platform ''s'' (engine wide_world) = (Inr ''https://wide.example/'', engine wide_world)"
  by (simp add: wide_world_def sim_eval)

lemma wide_captcha:
  "engine_checkForCaptcha sim_platform ''s'' (engine wide_world) = (Inr False, engine wide_world)"
  by (simp add: wide_world_def sim_eval)

lemma wide_miss:
  "fst (getCachedModel (new_URL sim_platform) (Date_now sim_platform (engine wide_world))
     ''https://wide.example/'' (page_model_cache (memory wide_world))) = None"
  by (simp add: wide_world_def sim_world_def empty_store_def getCachedModel_def)

lemma wide_html:
  "engine_getPageHTML sim_platform ''s'' (engine wide_world) = (Inr ''<html></html>'', engine wide_world)"
  by (simp add: wide_world_def sim_eval)

lemma wide_tree:
  "engine_getAccessibilityTree sim_platform ''s'' (engine wide_world) = (Inr ''[]'', engine wide_world)"
  by (simp add: wide_world_def sim_eval)

lemma wide_translate:
  "llm_translate sim_platform ''https://wide.example/'' ''<html></html>'' ''[]''
     (memory_buildLLMContext sim_platform (memory wide_world)
        (TaskExecutor_getDomain (new_URL sim_platform) ''https://wide.example/'')) (engine wide_world)
   = (Inr (Parsed wide_reply), engine wide_world)"
  by (simp add: sim_platform_def sim_translate_def)

theorem key_data_passes_through_unchanged_witness:
  "engine_getCurrentUrl sim_platform ''s'' (engine wide_world) = (Inr ''https://wide.example/'', engine wide_world) \<and>
   engine_checkForCaptcha sim_platform ''s'' (engine wide_world) = (Inr False, engine wide_world) \<and>
   fst (refreshModel sim_platform ''s'' wide_world) = Inr (buildModel ''https://wide.example/'' wide_reply 1000) \<and>
   pageModels (snd (refreshModel sim_platform ''s'' wide_world)) ''s''
     = Some (buildModel ''https://wide.example/'' wide_reply 1000) \<and>
   pm_key_data (buildModel ''https://wide.example/'' wide_reply 1000) = nullish (parsed_key_data wide_reply) [] \<and>
   length (nullish (parsed_key_data wide_reply) []) = 11"
proof -
  have t: "Date_now sim_platform (engine wide_world) = 1000"
    by (simp add: wide_world_def sim_world_def sim_platform_def)
  have n: "length (nullish (parsed_key_data wide_reply) []) = 11"
    by (simp add: wide_reply_def nullish_def)
  from key_data_passes_through_unchanged [OF wide_url wide_captcha wide_miss wide_html wide_tree wide_translate, of 1000]
    t n wide_url wide_captcha
  show ?thesis by simp
qed

text \<open>
  The bound of ten is not enforced: a translator output with eleven key facts yields a model
  with eleven.
\<close>

theorem key_data_bound_counterexample:
  "length (pm_key_data (buildModel ''https://wide.example/'' wide_reply 1000)) = 11 \<and>
   \<not> length (pm_key_data (buildModel ''https://wide.example/'' wide_reply 1000)) \<le> 10"
  by (simp add: buildModel_def wide_reply_def nullish_def)

section \<open>Parallel tasks: what is isolated and what is not\<close>

text \<open>
  What does hold for every platform: the \<^verbatim>\<open>try\<close> and \<^verbatim>\<open>catch\<close> of \<open>runTask\<close> always settle
  on a result, failed with the captured message when the navigation throws. So when session
  creation and teardown never throw, \<open>runParallel\<close> returns one result per task, in the
  order of the tasks.
\<close>

lemma task_id_outcome:
  "\<exists>i w'. task_id P task w = (Inr i, w') \<and> (\<forall>j. at_id task = Some j \<longrightarrow> i = j)"
  by (auto simp: task_id_def split: option.splits prod.splits)

lemma runTask_body_settles:
  fixes P :: "'e platform"
  defines "body \<equiv> \<lambda>sessionId task.
    try_catch
      (await (navigate P sessionId (at_url task)) (\<lambda>model.
       await (task_id P task) (\<lambda>i.
       resolve \<lparr>tr_task_id = i, tr_success = True,
                tr_output = Some \<lparr>to_page_state = model, to_key_data = pm_key_data model\<rparr>,
                tr_steps_taken = 1, tr_error = None\<rparr>)))
      (\<lambda>err.
       await (task_id P task) (\<lambda>i.
       resolve \<lparr>tr_task_id = i, tr_success = False, tr_output = None,
                tr_steps_taken = 0, tr_error = Some err\<rparr>))"
  shows "\<exists>result w'. body sessionId task w = (Inr result, w') \<and>
           (\<forall>j. at_id task = Some j \<longrightarrow> tr_task_id result = j) \<and>
           (tr_success result \<longleftrightarrow> tr_error result = None) \<and>
           (\<forall>err w1. navigate P sessionId (at_url task) w = (Inl err, w1) \<longrightarrow>
              \<not> tr_success result \<and> tr_error result = Some err)"
proof (cases "navigate P sessionId (at_url task) w")
  case (Pair outcome w1)
  obtain i w2 where i: "task_id P task w1 = (Inr i, w2)" "\<forall>j. at_id task = Some j \<longrightarrow> i = j"
    using task_id_outcome [of P task w1] by blast
  show ?thesis
  proof (cases outcome)
    case (Inl err)
    with Pair i show ?thesis
      by (simp add: body_def try_catch_def await_def resolve_def)
  next
    case (Inr model)
    with Pair i show ?thesis
      by (simp add: body_def try_catch_def await_def resolve_def)
  qed
qed

lemma runTask_settles:
  assumes create: "\<And>e. \<exists>sessionId e'. engine_createSession P e = (Inr sessionId, e')"
    and destroy: "\<And>sessionId e. \<exists>e'. engine_destroySession P sessionId e = (Inr (), e')"
  shows "\<exists>result w'. runTask P task w = (Inr result, w') \<and>
           (\<forall>j. at_id task = Some j \<longrightarrow> tr_task_id result = j) \<and>
           (tr_success result \<longleftrightarrow> tr_error result = None)"
proof -
  from create obtain sessionId e1 where c: "engine_createSession P (engine w) = (Inr sessionId, e1)"
    by blast
  from runTask_body_settles [of P sessionId task "w\<lparr>engine := e1\<rparr>"]
  obtain result w2 where b: "try_catch
      (await (navigate P sessionId (at_url task)) (\<lambda>model.
       await (task_id P task) (\<lambda>i.
       resolve \<lparr>tr_task_id = i, tr_success = True,
                tr_output = Some \<lparr>to_page_state = model, to_key_data = pm_key_data model\<rparr>,
                tr_steps_taken = 1, tr_error = None\<rparr>)))
      (\<lambda>err.
       await (task_id P task) (\<lambda>i.
       resolve \<lparr>tr_task_id = i, tr_success = False, tr_output = None,
                tr_steps_taken = 0, tr_error = Some err\<rparr>)) (w\<lparr>engine := e1\<rparr>) = (Inr result, w2)"
    and r: "\<forall>j. at_id task = Some j \<longrightarrow> tr_task_id result = j" "tr_success result \<longleftrightarrow> tr_error result = None"
    by (elim exE conjE)
  from destroy obtain e3 where d: "engine_destroySession P sessionId (engine w2) = (Inr (), e3)"
    by blast
  have "runTask P task w = (Inr result, w2\<lparr>engine := e3\<rparr>)"
    using b d by (simp add: runTask_def await_def driver_def c try_finally_def)
  with r show ?thesis by auto
qed

lemma runParallel_one_result_per_task:
  assumes create: "\<And>e. \<exists>sessionId e'. engine_createSession P e = (Inr sessionId, e')"
    and destroy: "\<And>sessionId e. \<exists>e'. engine_destroySession P sessionId e = (Inr (), e')"
  shows "\<exists>results w'. runParallel P tasks w = (Inr results, w') \<and>
           length results = length tasks \<and>
           (\<forall>n < length tasks. \<forall>j. at_id (tasks ! n) = Some j \<longrightarrow> tr_task_id (results ! n) = j)"
proof (induction tasks arbitrary: w)
  case Nil
  then show ?case by simp
next
  case (Cons task tasks)
  from runTask_settles [OF create destroy, of task w]
  obtain result w1 where t: "runTask P task w = (Inr result, w1)"
    and r: "\<forall>j. at_id task = Some j \<longrightarrow> tr_task_id result = j" by blast
  from Cons.IH [of w1] obtain results w2 where ts: "runParallel P tasks w1 = (Inr results, w2)"
    and l: "length results = length tasks"
    and ids: "\<forall>n < length tasks. \<forall>j. at_id (tasks ! n) = Some j \<longrightarrow> tr_task_id (results ! n) = j"
    by blast
  have "runParallel P (task # tasks) w = (Inr (result # results), w2)"
    by (simp add: t ts)
  moreover have "\<forall>n < length (task # tasks). \<forall>j. at_id ((task # tasks) ! n) = Some j \<longrightarrow>
      tr_task_id ((result # results) ! n) = j"
    using r ids by (auto simp: nth_Cons split: nat.splits)
  ultimately show ?case using l by simp
qed

text \<open>
  The three tasks of the batch on a launched browser, the second aimed at a host that does
  not resolve: three results, the second failed with the driver's message.
\<close>

lemma runParallel_navigation_failure_isolated:
  "map (\<lambda>r. (tr_task_id r, tr_success r, tr_error r))
     (case fst (runParallel sim_platform three_tasks (sim_world True [] empty_store [])) of
        Inl err \<Rightarrow> [] | Inr results \<Rightarrow> results)
   = [(''a'', True, None), (''b'', False, Some ''net::ERR_NAME_NOT_RESOLVED''), (''c'', True, None)]"
  by (simp add: three_tasks_def runTask_def navigate_def refreshModel_def analyze_def task_id_def
      async_eval sim_eval empty_store_def getCachedModel_def cacheModel_def normalizeUrl_def
      getDomain_def TaskExecutor_getDomain_def strip_trailing_slash_def URL_parse_eval
      buildModel_def nullish_def login_reply_def item_reply_def updateSiteProfile_def Let_def
      CACHE_TTL_MS_def)

text \<open>
  Claim C4, at its failing input. With a browser that was never launched
  \<^verbatim>\<open>createSession\<close> throws; it is called before the \<^verbatim>\<open>try\<close> of \<open>runTask\<close>, so the exception
  leaves \<open>runTask\<close>, and \<open>runParallel\<close> is rejected with it: the three tasks yield no
  result at all, where the claim has three results marked failed.
\<close>

theorem runParallel_createSession_failure_aborts_batch:
  "runParallel sim_platform three_tasks (sim_world False [] empty_store [])
     = (Inl ''Browser not launched'', sim_world False [] empty_store [])"
proof -
  have c: "engine_createSession sim_platform (engine (sim_world False [] empty_store []))
      = (Inl ''Browser not launched'', engine (sim_world False [] empty_store []))"
    by (simp add: sim_eval)
  have "runTask sim_platform task (sim_world False [] empty_store [])
      = (Inl ''Browser not launched'', sim_world False [] empty_store [])" for task
    using runTask_createSession_throws [OF c, of task] by simp
  then show ?thesis by (simp add: three_tasks_def)
qed

end
